theory Spec2Isabelle
  imports Main "HOL-Library.Sublist"
begin

section \<open>The tableau4go client (client.go)\<close>

text \<open>
  A shallow embedding of \<^verbatim>\<open>client.go\<close>. The file is the whole client: a
  dispatcher \<^verbatim>\<open>makeRequest\<close> and the operations that build a URL and a body
  and call it. Everything the file uses without defining it is a field of the
  environment record \<open>env\<close> below: the functions of Go's standard library it calls
  (\<^verbatim>\<open>strings.TrimSpace\<close>, \<^verbatim>\<open>http.NewRequest\<close>, the HTTP client,
  \<^verbatim>\<open>xml.Unmarshal\<close>, \<^verbatim>\<open>url.Values.Encode\<close>) and the declarations of the
  package's other file (the \<^verbatim>\<open>XML()\<close> serialisers, the timeout constants).
  Strings are byte strings, as in Go.
\<close>

subsection \<open>Constants (lines 28-36)\<close>

definition content_type_header :: string where
  "content_type_header = ''Content-Type''"

definition content_length_header :: string where
  "content_length_header = ''Content-Length''"

definition auth_header :: string where
  "auth_header = ''X-Tableau-Auth''"

definition application_xml_content_type :: string where
  "application_xml_content_type = ''application/xml''"

definition POST :: string where
  "POST = ''POST''"

definition GET :: string where
  "GET = ''GET''"

definition DELETE :: string where
  "DELETE = ''DELETE''"

definition CRLF :: string where
  "CRLF = [CHR 0x0D, CHR 0x0A]"

definition LF :: string where
  "LF = [CHR 0x0A]"

subsection \<open>Data\<close>

text \<open>
  Modelled from the spec: the struct declarations of the package (\<^verbatim>\<open>API\<close>, the
  entities, the request and response envelopes) are not in \<^verbatim>\<open>client.go\<close>. The
  spec's session state is "server base URL, API version string, default site name, omit
  default site name flag, current auth token, multipart boundary string"; the field names
  are the ones \<^verbatim>\<open>client.go\<close> reads and writes.
\<close>

record API =
  Server :: string
  Version :: string
  Boundary :: string
  AuthToken :: string
  OmitDefaultSiteName :: bool
  DefaultSiteName :: string

text \<open>
  Modelled from the spec: the declarations of the entities, of the error value and of the
  request and response envelopes are not in \<^verbatim>\<open>client.go\<close>. The entities are "a
  flat field-set mirroring the remote schema's XML element", the error "carries the
  server's message/code", an envelope is "an outer wrapper element containing the
  collection or single entity". Each record has the fields that \<^verbatim>\<open>client.go\<close>
  names (a field name is prefixed where two structs share it); the entities of which it
  names no field (server info, view, workbook) are type parameters \<open>'i\<close>, \<open>'v\<close>,
  \<open>'w\<close>. A field that the code assigns a pointer to is an \<open>option\<close> (\<open>None\<close>
  is \<^verbatim>\<open>nil\<close>); a field it reads through is a value.
\<close>

record Site =
  Site_ID :: string
  ContentUrl :: string

record User =
  User_ID :: string

record Project =
  Project_ID :: string
  Project_Name :: string

record Datasource =
  Datasource_ID :: string
  Datasource_Name :: string

record Credentials =
  Cred_Name :: string
  Password :: string
  Token :: string
  Cred_Site :: "Site option"
  Impersonate :: "User option"

record TError =
  Code :: string
  Summary :: string
  Detail :: string

record ErrorResponse =
  Error :: TError

record SigninRequest =
  Signin_Request :: Credentials

record AuthResponse =
  Auth_Credentials :: Credentials

record CreateProjectRequest =
  CreateProject_Request :: Project

record DatasourceCreateRequest =
  DatasourceCreate_Request :: Datasource

record 'i ServerInfoResponse =
  ServerInfo_of :: 'i

record Sites =
  Sites_of :: "Site list"

record QuerySitesResponse =
  QuerySites_Sites :: Sites

record QuerySiteResponse =
  QuerySite_Site :: Site

record QueryUserOnSiteResponse =
  QueryUser_User :: User

record Projects =
  Projects_of :: "Project list"

record QueryProjectsResponse =
  QueryProjects_Projects :: Projects

record 'v Views =
  Views_of :: "'v list"

record 'v QueryViewsResponse =
  QueryViews_Views :: "'v Views"

record 'w Workbooks =
  Workbooks_of :: "'w list"

record 'w QueryWorkbooksResponse =
  QueryWorkbooks_Workbooks :: "'w Workbooks"

record Datasources =
  Datasources_of :: "Datasource list"

record QueryDatasourcesResponse =
  QueryDatasources_Datasources :: Datasources

record CreateProjectResponse =
  CreateProject_Project :: Project

text \<open>The zero values that the composite literals \<^verbatim>\<open>T{}\<close> of the code denote.\<close>

definition Site_zero :: Site where
  "Site_zero = \<lparr>Site_ID = [], ContentUrl = []\<rparr>"

definition User_zero :: User where
  "User_zero = \<lparr>User_ID = []\<rparr>"

definition Project_zero :: Project where
  "Project_zero = \<lparr>Project_ID = [], Project_Name = []\<rparr>"

definition Credentials_zero :: Credentials where
  "Credentials_zero =
     \<lparr>Cred_Name = [], Password = [], Token = [], Cred_Site = None, Impersonate = None\<rparr>"

definition TError_zero :: TError where
  "TError_zero = \<lparr>Code = [], Summary = [], Detail = []\<rparr>"

subsection \<open>Errors\<close>

text \<open>
  A Go \<^verbatim>\<open>error\<close> is one of: the package's sentinel \<^verbatim>\<open>ErrDoesNotExist\<close>
  (line 36), a \<^verbatim>\<open>TError\<close> decoded from the server's error body (line 406), an
  error made by \<^verbatim>\<open>fmt.Errorf\<close> with its message (lines 220, 234), an error
  value made by the standard library or by an \<^verbatim>\<open>XML()\<close> serialiser (with its
  message), or a run-time panic.
\<close>

datatype error =
    ErrDoesNotExist
  | ServerError TError
  | Errorf string
  | LibError string
  | Panic string

subsection \<open>Requests, responses and decode targets\<close>

text \<open>
  \<^verbatim>\<open>http.Header\<close> is a map from canonical keys to the list of values added
  under the key; an absent key is the empty list.
\<close>

type_synonym Header = "string \<Rightarrow> string list"

record Request =
  Method :: string
  URL :: string
  Body :: "string option"
  Header :: Header

text \<open>
  Of a response the code reads the status code and the body; \<open>Body_read\<close> is what
  \<^verbatim>\<open>ioutil.ReadAll(resp.Body)\<close> returns: the bytes read and the error, if any.
\<close>

record Response =
  StatusCode :: int
  Body_read :: "string \<times> error option"

text \<open>
  A \<^verbatim>\<open>csv.Reader\<close> is the byte string it reads from; the zero reader
  \<^verbatim>\<open>csv.Reader{}\<close> has none.
\<close>

type_synonym csv_Reader = "string option"

text \<open>
  The decode target \<^verbatim>\<open>result interface{}\<close> of \<^verbatim>\<open>makeRequest\<close>. An interface
  value is \<^verbatim>\<open>nil\<close> (\<open>NoTarget\<close>), or holds a pointer together with the
  pointer's type: a \<^verbatim>\<open>nil\<close> pointer of some type (\<open>NilPtr\<close>, which as an
  interface value is not \<^verbatim>\<open>nil\<close>), a pointer to a \<^verbatim>\<open>csv.Reader\<close>
  (\<open>CsvPtr\<close>) or a pointer to a value of another type (\<open>Ptr\<close>). What the type
  decides in \<^verbatim>\<open>makeRequest\<close> is how \<^verbatim>\<open>xml.Unmarshal(body, &result)\<close> decodes;
  so each constructor carries that function: for a pointer, from the body and the value
  pointed to, to the error (if any) and the value pointed to afterwards; for a
  \<^verbatim>\<open>nil\<close> pointer, where there is no value to write to, from the body to the
  error. The value carried by \<open>Ptr\<close> and \<open>CsvPtr\<close> is the variable of the caller
  that the pointer points to.
\<close>

datatype 'r target =
    NoTarget
  | NilPtr "string \<Rightarrow> error option"
  | Ptr "string \<Rightarrow> 'r \<Rightarrow> error option \<times> 'r" 'r
  | CsvPtr "string \<Rightarrow> csv_Reader \<Rightarrow> error option \<times> csv_Reader" csv_Reader

fun deref :: "'r \<Rightarrow> 'r target \<Rightarrow> 'r" where
  "deref v0 (Ptr d v) = v"
| "deref v0 t = v0"

fun deref_csv :: "csv_Reader \<Rightarrow> 'r target \<Rightarrow> csv_Reader" where
  "deref_csv v0 (CsvPtr d v) = v"
| "deref_csv v0 t = v0"

subsection \<open>The environment and the state\<close>

text \<open>
  What \<^verbatim>\<open>client.go\<close> calls and does not define. Durations are in nanoseconds.
  \<open>NewRequest_err\<close> is the check of \<^verbatim>\<open>http.NewRequest\<close> on the method and the
  URL. \<open>client_Do\<close> is the client made by \<^verbatim>\<open>NewTimeoutClient\<close> for the two
  timeouts: from the requests sent so far and the request, the transport error or the
  response. The \<open>xml_\<close> fields are \<^verbatim>\<open>xml.Unmarshal\<close> at each type it is used
  at, the \<open>_XML\<close> fields the serialisers of the request envelopes.
\<close>

record ('i, 'v, 'w) env =
  connectTimeOut :: int
  readWriteTimeout :: int
  strings_TrimSpace :: "string \<Rightarrow> string"
  CanonicalHeaderKey :: "string \<Rightarrow> string"
  NewRequest_err :: "string \<Rightarrow> string \<Rightarrow> error option"
  client_Do :: "(int \<times> int \<times> Request) list \<Rightarrow> int \<Rightarrow> int \<Rightarrow> Request \<Rightarrow> error + Response"
  Values_Encode :: "(string \<times> string list) list \<Rightarrow> string"
  SigninRequest_XML :: "SigninRequest \<Rightarrow> error + string"
  CreateProjectRequest_XML :: "CreateProjectRequest \<Rightarrow> error + string"
  DatasourceCreateRequest_XML :: "DatasourceCreateRequest \<Rightarrow> error + string"
  ServerInfo_zero :: 'i
  xml_ErrorResponse :: "string \<Rightarrow> ErrorResponse \<Rightarrow> error option \<times> ErrorResponse"
  xml_AuthResponse :: "string \<Rightarrow> AuthResponse \<Rightarrow> error option \<times> AuthResponse"
  xml_ServerInfoResponse :: "string \<Rightarrow> 'i ServerInfoResponse \<Rightarrow> error option \<times> 'i ServerInfoResponse"
  xml_QuerySitesResponse :: "string \<Rightarrow> QuerySitesResponse \<Rightarrow> error option \<times> QuerySitesResponse"
  xml_QuerySiteResponse :: "string \<Rightarrow> QuerySiteResponse \<Rightarrow> error option \<times> QuerySiteResponse"
  xml_QueryUserOnSiteResponse :: "string \<Rightarrow> QueryUserOnSiteResponse \<Rightarrow> error option \<times> QueryUserOnSiteResponse"
  xml_QueryProjectsResponse :: "string \<Rightarrow> QueryProjectsResponse \<Rightarrow> error option \<times> QueryProjectsResponse"
  xml_QueryViewsResponse :: "string \<Rightarrow> 'v QueryViewsResponse \<Rightarrow> error option \<times> 'v QueryViewsResponse"
  xml_QueryWorkbooksResponse :: "string \<Rightarrow> 'w QueryWorkbooksResponse \<Rightarrow> error option \<times> 'w QueryWorkbooksResponse"
  xml_QueryDatasourcesResponse :: "string \<Rightarrow> QueryDatasourcesResponse \<Rightarrow> error option \<times> QueryDatasourcesResponse"
  xml_CreateProjectResponse :: "string \<Rightarrow> CreateProjectResponse \<Rightarrow> error option \<times> CreateProjectResponse"
  xml_csv_Reader :: "string \<Rightarrow> csv_Reader \<Rightarrow> error option \<times> csv_Reader"
  xml_nil_Datasource :: "string \<Rightarrow> error option"

text \<open>
  The state that the methods of \<^verbatim>\<open>*API\<close> work on: the session \<open>api\<close> the
  receiver points to, the global \<^verbatim>\<open>Debug\<close> (line 39), what has been printed to
  standard output, and the requests handed to the HTTP client, each with the connect and
  read-write timeouts of the client it was handed to.
\<close>

record state =
  api :: API
  Debug :: bool
  stdout :: "string list"
  wire :: "(int \<times> int \<times> Request) list"

definition Printf :: "string \<Rightarrow> state \<Rightarrow> state" where
  "Printf out s = s\<lparr>stdout := stdout s @ [out]\<rparr>"

subsection \<open>Standard library functions written out\<close>

text \<open>\<^verbatim>\<open>strconv.Itoa\<close> on a length: the decimal digits.\<close>

fun Itoa :: "nat \<Rightarrow> string" where
  "Itoa n = (if n < 10 then [''0123456789'' ! n]
             else Itoa (n div 10) @ [''0123456789'' ! (n mod 10)])"

declare Itoa.simps [simp del]

text \<open>The verb \<^verbatim>\<open>%v\<close> of \<^verbatim>\<open>fmt.Sprintf\<close> on a \<^verbatim>\<open>bool\<close>.\<close>

definition fmt_bool :: "bool \<Rightarrow> string" where
  "fmt_bool b = (if b then ''true'' else ''false'')"

text \<open>
  \<^verbatim>\<open>Header.Add\<close>: the value is appended to the list under the canonical form of
  the key.
\<close>

definition Header_Add :: "('i, 'v, 'w) env \<Rightarrow> Header \<Rightarrow> string \<Rightarrow> string \<Rightarrow> Header" where
  "Header_Add e h key val =
     (let k = CanonicalHeaderKey e key in h(k := h k @ [val]))"

text \<open>
  \<^verbatim>\<open>http.NewRequest\<close>: an error when the method or the URL is refused; otherwise
  a request with that method (\<^verbatim>\<open>GET\<close> for the empty method), URL and body, and
  an empty header.
\<close>

definition http_NewRequest ::
  "('i, 'v, 'w) env \<Rightarrow> string \<Rightarrow> string \<Rightarrow> string option \<Rightarrow> error + Request" where
  "http_NewRequest e method url body =
     (case NewRequest_err e method url of
        Some httpErr \<Rightarrow> Inl httpErr
      | None \<Rightarrow> Inr \<lparr>Method = (if method = [] then ''GET'' else method), URL = url,
                      Body = body, Header = (\<lambda>k. [])\<rparr>)"

subsection \<open>makeRequest (lines 350-419)\<close>

text \<open>
  \<open>payload\<close> is a byte slice (\<open>None\<close> is \<^verbatim>\<open>nil\<close>); \<open>headers\<close> is the map
  as the list of its entries in the order the \<^verbatim>\<open>range\<close> loop visits them (a
  \<^verbatim>\<open>nil\<close> map is the empty list). The function returns the error (\<open>None\<close> is
  \<^verbatim>\<open>nil\<close>), the decode target with the value pointed to as the call leaves it,
  and the state. The steps are those of the source, in its order; a panic is returned as
  the error \<open>Panic\<close>. Closing the response body (line 389) changes nothing that the
  state records.
\<close>

text \<open>Lines 351-356: the trace of the request.\<close>

definition debug_request :: "string \<Rightarrow> string \<Rightarrow> string option \<Rightarrow> state \<Rightarrow> state" where
  "debug_request method requestURL payload s =
     (if Debug s then
        (let s' = Printf (method @ '':'' @ requestURL @ LF) s in
         case payload of None \<Rightarrow> s' | Some p \<Rightarrow> Printf (p @ LF) s')
      else s)"

text \<open>Lines 358-372: the request, with its content length when there is a body.\<close>

definition new_request ::
  "('i, 'v, 'w) env \<Rightarrow> string \<Rightarrow> string \<Rightarrow> string option \<Rightarrow> error + Request" where
  "new_request e method requestURL payload =
     (case payload of
        Some p \<Rightarrow>
          (if length p > 0 then
             (case http_NewRequest e (strings_TrimSpace e method)
                     (strings_TrimSpace e requestURL) (Some p) of
                Inl httpErr \<Rightarrow> Inl httpErr
              | Inr req \<Rightarrow>
                  Inr (req\<lparr>Header :=
                    Header_Add e (Header req) content_length_header (Itoa (length p))\<rparr>))
           else http_NewRequest e (strings_TrimSpace e method)
                  (strings_TrimSpace e requestURL) None)
      | None \<Rightarrow> http_NewRequest e (strings_TrimSpace e method)
                  (strings_TrimSpace e requestURL) None)"

text \<open>Lines 373-377: every entry of the header map is added.\<close>

fun add_headers :: "('i, 'v, 'w) env \<Rightarrow> (string \<times> string) list \<Rightarrow> Header \<Rightarrow> Header" where
  "add_headers e [] h = h"
| "add_headers e ((header, headerValue) # rest) h =
     add_headers e rest (Header_Add e h header headerValue)"

text \<open>
  Lines 378-383: the session's token, when it is not empty, is added under the
  authentication header; with \<^verbatim>\<open>Debug\<close> it is traced.
\<close>

definition add_auth :: "('i, 'v, 'w) env \<Rightarrow> API \<Rightarrow> Request \<Rightarrow> Request" where
  "add_auth e a req =
     (if length (AuthToken a) > 0
      then req\<lparr>Header := Header_Add e (Header req) auth_header (AuthToken a)\<rparr>
      else req)"

definition debug_auth :: "state \<Rightarrow> state" where
  "debug_auth s =
     (if length (AuthToken (api s)) > 0 then
        (if Debug s then Printf (auth_header @ '':'' @ AuthToken (api s) @ LF) s else s)
      else s)"

text \<open>Lines 358-383 together: the request that is handed to the client, or the error.\<close>

definition build_request ::
  "('i, 'v, 'w) env \<Rightarrow> API \<Rightarrow> string \<Rightarrow> string \<Rightarrow> string option
     \<Rightarrow> (string \<times> string) list \<Rightarrow> error + Request" where
  "build_request e a method requestURL payload headers =
     (case new_request e method requestURL payload of
        Inl httpErr \<Rightarrow> Inl httpErr
      | Inr req \<Rightarrow>
          Inr (add_auth e a (req\<lparr>Header := add_headers e headers (Header req)\<rparr>)))"

text \<open>Lines 408-418: the body is decoded into the target.\<close>

definition decode_result ::
  "string \<Rightarrow> string \<Rightarrow> 'r target \<Rightarrow> error option \<times> 'r target" where
  "decode_result format body result =
     (case result of
        NoTarget \<Rightarrow> (None, NoTarget)
      | NilPtr dec \<Rightarrow>
          (if format = ''csv''
           then (Some (Panic ''result.(*csv.Reader)''), NilPtr dec)
           else (dec body, NilPtr dec))
      | Ptr dec v \<Rightarrow>
          (if format = ''csv''
           then (Some (Panic ''result.(*csv.Reader)''), Ptr dec v)
           else (case dec body v of (err, v') \<Rightarrow> (err, Ptr dec v')))
      | CsvPtr dec r \<Rightarrow>
          (if format = ''csv''
           then (None, CsvPtr dec (Some body))
           else (case dec body r of (err, r') \<Rightarrow> (err, CsvPtr dec r'))))"

text \<open>Lines 390-418: the response is read and its status decides.\<close>

definition read_response ::
  "('i, 'v, 'w) env \<Rightarrow> string \<Rightarrow> 'r target \<Rightarrow> Response \<Rightarrow> state
     \<Rightarrow> (error option \<times> 'r target) \<times> state" where
  "read_response e format result resp s =
     (case Body_read resp of (body, readBodyError) \<Rightarrow>
        (let s' = (if Debug s then Printf (''t4g Response:'' @ body @ LF) s else s) in
         case readBodyError of
           Some err \<Rightarrow> ((Some err, result), s')
         | None \<Rightarrow>
             if StatusCode resp = 404 then ((Some ErrDoesNotExist, result), s')
             else if StatusCode resp \<ge> 300 then
               (case xml_ErrorResponse e body \<lparr>Error = TError_zero\<rparr> of
                  (Some err, tErrorResponse) \<Rightarrow> ((Some err, result), s')
                | (None, tErrorResponse) \<Rightarrow>
                    ((Some (ServerError (Error tErrorResponse)), result), s'))
             else (decode_result format body result, s')))"

definition makeRequest ::
  "('i, 'v, 'w) env \<Rightarrow> string \<Rightarrow> string \<Rightarrow> string option \<Rightarrow> 'r target
     \<Rightarrow> (string \<times> string) list \<Rightarrow> int \<Rightarrow> int \<Rightarrow> string \<Rightarrow> state
     \<Rightarrow> (error option \<times> 'r target) \<times> state" where
  "makeRequest e requestURL method payload result headers cTimeout rwTimeout format s =
     (let s1 = debug_request method requestURL payload s in
      case build_request e (api s1) method requestURL payload headers of
        Inl httpErr \<Rightarrow> ((Some httpErr, result), s1)
      | Inr req \<Rightarrow>
          (let s2 = debug_auth s1;
               s3 = s2\<lparr>wire := wire s2 @ [(cTimeout, rwTimeout, req)]\<rparr>
           in case client_Do e (wire s2) cTimeout rwTimeout req of
                Inl httpErr \<Rightarrow> ((Some httpErr, result), s3)
              | Inr resp \<Rightarrow> read_response e format result resp s3))"

subsection \<open>Authentication (lines 43-82)\<close>

text \<open>
  A method of \<^verbatim>\<open>*API\<close> takes the state and returns its results and the state.
  \<^verbatim>\<open>fmt.Sprintf\<close> with \<^verbatim>\<open>%s\<close> on strings is concatenation.
\<close>

text \<open>Lines 45-58: the credentials of the sign-in request.\<close>

definition Signin_request :: "API \<Rightarrow> string \<Rightarrow> string \<Rightarrow> string \<Rightarrow> string \<Rightarrow> SigninRequest" where
  "Signin_request a username password contentURL userIDToImpersonate =
     (let credentials = Credentials_zero\<lparr>Cred_Name := username, Password := password\<rparr>;
          credentials =
            (if length userIDToImpersonate > 0
             then credentials\<lparr>Impersonate := Some (User_zero\<lparr>User_ID := userIDToImpersonate\<rparr>)\<rparr>
             else credentials);
          siteName = contentURL;
          siteName =
            (if OmitDefaultSiteName a
             then (if contentURL = DefaultSiteName a then [] else siteName)
             else siteName);
          credentials = credentials\<lparr>Cred_Site := Some (Site_zero\<lparr>ContentUrl := siteName\<rparr>)\<rparr>
      in \<lparr>Signin_Request = credentials\<rparr>)"

definition Signin ::
  "('i, 'v, 'w) env \<Rightarrow> string \<Rightarrow> string \<Rightarrow> string \<Rightarrow> string \<Rightarrow> state
     \<Rightarrow> error option \<times> state" where
  "Signin e username password contentURL userIDToImpersonate s =
     (let url = Server (api s) @ ''/api/'' @ Version (api s) @ ''/auth/signin'';
          request = Signin_request (api s) username password contentURL userIDToImpersonate
      in case SigninRequest_XML e request of
           Inl err \<Rightarrow> (Some err, s)
         | Inr signInXML \<Rightarrow>
             (let payload = signInXML;
                  headers = [(content_type_header, application_xml_content_type)];
                  retval = \<lparr>Auth_Credentials = Credentials_zero\<rparr>
              in case makeRequest e url POST (Some payload) (Ptr (xml_AuthResponse e) retval)
                        headers (connectTimeOut e) (readWriteTimeout e) [] s of
                   ((err, t), s') \<Rightarrow>
                     (if err = None
                      then (err, s'\<lparr>api := (api s')
                              \<lparr>AuthToken := Token (Auth_Credentials (deref retval t))\<rparr>\<rparr>)
                      else (err, s'))))"

definition Signout :: "('i, 'v, 'w) env \<Rightarrow> state \<Rightarrow> error option \<times> state" where
  "Signout e s =
     (let url = Server (api s) @ ''/api/'' @ Version (api s) @ ''/auth/signout'';
          headers = [(content_type_header, application_xml_content_type)]
      in case makeRequest e url POST None (NoTarget :: unit target) headers
                (connectTimeOut e) (readWriteTimeout e) [] s of
           ((err, t), s') \<Rightarrow> (err, s'))"

subsection \<open>Queries (lines 86-254)\<close>

definition ServerInfo :: "('i, 'v, 'w) env \<Rightarrow> state \<Rightarrow> ('i \<times> error option) \<times> state" where
  "ServerInfo e s =
     (let url = Server (api s) @ ''/api/'' @ ''2.4'' @ ''/serverinfo'';
          headers = [];
          retval = \<lparr>ServerInfo_of = ServerInfo_zero e\<rparr>
      in case makeRequest e url GET None (Ptr (xml_ServerInfoResponse e) retval) headers
                (connectTimeOut e) (readWriteTimeout e) [] s of
           ((err, t), s') \<Rightarrow> ((ServerInfo_of (deref retval t), err), s'))"

definition QuerySites :: "('i, 'v, 'w) env \<Rightarrow> state \<Rightarrow> (Site list \<times> error option) \<times> state" where
  "QuerySites e s =
     (let url = Server (api s) @ ''/api/'' @ Version (api s) @ ''/sites/'';
          headers = [];
          retval = \<lparr>QuerySites_Sites = \<lparr>Sites_of = []\<rparr>\<rparr>
      in case makeRequest e url GET None (Ptr (xml_QuerySitesResponse e) retval) headers
                (connectTimeOut e) (readWriteTimeout e) [] s of
           ((err, t), s') \<Rightarrow> ((Sites_of (QuerySites_Sites (deref retval t)), err), s'))"

definition querySite ::
  "('i, 'v, 'w) env \<Rightarrow> string \<Rightarrow> state \<Rightarrow> (Site \<times> error option) \<times> state" where
  "querySite e url s =
     (let headers = [];
          retval = \<lparr>QuerySite_Site = Site_zero\<rparr>
      in case makeRequest e url GET None (Ptr (xml_QuerySiteResponse e) retval) headers
                (connectTimeOut e) (readWriteTimeout e) [] s of
           ((err, t), s') \<Rightarrow> ((QuerySite_Site (deref retval t), err), s'))"

definition QuerySite ::
  "('i, 'v, 'w) env \<Rightarrow> string \<Rightarrow> bool \<Rightarrow> state \<Rightarrow> (Site \<times> error option) \<times> state" where
  "QuerySite e siteID includeStorage s =
     (let url = Server (api s) @ ''/api/'' @ Version (api s) @ ''/sites/'' @ siteID;
          url = (if includeStorage then url @ ''?includeStorage='' @ fmt_bool includeStorage
                 else url)
      in querySite e url s)"

definition querySiteByKey ::
  "('i, 'v, 'w) env \<Rightarrow> string \<Rightarrow> string \<Rightarrow> bool \<Rightarrow> state \<Rightarrow> (Site \<times> error option) \<times> state" where
  "querySiteByKey e key val includeStorage s =
     (let url = Server (api s) @ ''/api/'' @ Version (api s) @ ''/sites/'' @ val
                  @ ''?key='' @ key;
          url = (if includeStorage then url @ ''&includeStorage='' @ fmt_bool includeStorage
                 else url)
      in querySite e url s)"

definition QuerySiteByName ::
  "('i, 'v, 'w) env \<Rightarrow> string \<Rightarrow> bool \<Rightarrow> state \<Rightarrow> (Site \<times> error option) \<times> state" where
  "QuerySiteByName e name includeStorage s = querySiteByKey e ''name'' name includeStorage s"

definition QuerySiteByContentURL ::
  "('i, 'v, 'w) env \<Rightarrow> string \<Rightarrow> bool \<Rightarrow> state \<Rightarrow> (Site \<times> error option) \<times> state" where
  "QuerySiteByContentURL e contentURL includeStorage s =
     querySiteByKey e ''contentURL'' contentURL includeStorage s"

definition QueryUserOnSite ::
  "('i, 'v, 'w) env \<Rightarrow> string \<Rightarrow> string \<Rightarrow> state \<Rightarrow> (User \<times> error option) \<times> state" where
  "QueryUserOnSite e siteID userID s =
     (let url = Server (api s) @ ''/api/'' @ Version (api s) @ ''/sites/'' @ siteID
                  @ ''/users/'' @ userID;
          headers = [];
          retval = \<lparr>QueryUser_User = User_zero\<rparr>
      in case makeRequest e url GET None (Ptr (xml_QueryUserOnSiteResponse e) retval) headers
                (connectTimeOut e) (readWriteTimeout e) [] s of
           ((err, t), s') \<Rightarrow> ((QueryUser_User (deref retval t), err), s'))"

definition QueryProjects ::
  "('i, 'v, 'w) env \<Rightarrow> string \<Rightarrow> state \<Rightarrow> (Project list \<times> error option) \<times> state" where
  "QueryProjects e siteID s =
     (let url = Server (api s) @ ''/api/'' @ Version (api s) @ ''/sites/'' @ siteID
                  @ ''/projects'';
          headers = [];
          retval = \<lparr>QueryProjects_Projects = \<lparr>Projects_of = []\<rparr>\<rparr>
      in case makeRequest e url GET None (Ptr (xml_QueryProjectsResponse e) retval) headers
                (connectTimeOut e) (readWriteTimeout e) [] s of
           ((err, t), s') \<Rightarrow>
             ((Projects_of (QueryProjects_Projects (deref retval t)), err), s'))"

definition QueryViews ::
  "('i, 'v, 'w) env \<Rightarrow> string \<Rightarrow> state \<Rightarrow> ('v list \<times> error option) \<times> state" where
  "QueryViews e siteID s =
     (let url = Server (api s) @ ''/api/'' @ Version (api s) @ ''/sites/'' @ siteID
                  @ ''/views'';
          headers = [];
          retval = \<lparr>QueryViews_Views = \<lparr>Views_of = []\<rparr>\<rparr>
      in case makeRequest e url GET None (Ptr (xml_QueryViewsResponse e) retval) headers
                (connectTimeOut e) (readWriteTimeout e) [] s of
           ((err, t), s') \<Rightarrow> ((Views_of (QueryViews_Views (deref retval t)), err), s'))"

definition QueryWorkbookViews ::
  "('i, 'v, 'w) env \<Rightarrow> string \<Rightarrow> string \<Rightarrow> (string \<times> string list) list \<Rightarrow> state
     \<Rightarrow> ('v list \<times> error option) \<times> state" where
  "QueryWorkbookViews e siteID workbookID vals s =
     (let params = Values_Encode e vals;
          params = (if params \<noteq> [] then ''?'' @ params else params);
          url = Server (api s) @ ''/api/'' @ Version (api s) @ ''/sites/'' @ siteID
                  @ ''/workbooks/'' @ workbookID @ ''/views'' @ params;
          headers = [];
          retval = \<lparr>QueryViews_Views = \<lparr>Views_of = []\<rparr>\<rparr>
      in case makeRequest e url GET None (Ptr (xml_QueryViewsResponse e) retval) headers
                (connectTimeOut e) (readWriteTimeout e) [] s of
           ((err, t), s') \<Rightarrow> ((Views_of (QueryViews_Views (deref retval t)), err), s'))"

text \<open>Sixty seconds, in nanoseconds.\<close>

definition sixty_seconds :: int where
  "sixty_seconds = 60 * 1000000000"

definition QueryViewData ::
  "('i, 'v, 'w) env \<Rightarrow> string \<Rightarrow> string \<Rightarrow> state \<Rightarrow> (csv_Reader \<times> error option) \<times> state" where
  "QueryViewData e siteID viewID s =
     (let url = Server (api s) @ ''/api/'' @ Version (api s) @ ''/sites/'' @ siteID
                  @ ''/views/'' @ viewID @ ''/data'';
          headers = [];
          retVal = (None :: csv_Reader)
      in case makeRequest e url GET None (CsvPtr (xml_csv_Reader e) retVal :: unit target)
                headers sixty_seconds sixty_seconds ''csv'' s of
           ((err, t), s') \<Rightarrow> ((deref_csv retVal t, err), s'))"

definition QueryWorkbooks ::
  "('i, 'v, 'w) env \<Rightarrow> string \<Rightarrow> (string \<times> string list) list \<Rightarrow> state
     \<Rightarrow> ('w list \<times> error option) \<times> state" where
  "QueryWorkbooks e siteID vals s =
     (let params = Values_Encode e vals;
          params = (if params \<noteq> [] then ''?'' @ params else params);
          url = Server (api s) @ ''/api/'' @ Version (api s) @ ''/sites/'' @ siteID
                  @ ''/workbooks'' @ params;
          headers = [];
          retval = \<lparr>QueryWorkbooks_Workbooks = \<lparr>Workbooks_of = []\<rparr>\<rparr>
      in case makeRequest e url GET None (Ptr (xml_QueryWorkbooksResponse e) retval) headers
                (connectTimeOut e) (readWriteTimeout e) [] s of
           ((err, t), s') \<Rightarrow>
             ((Workbooks_of (QueryWorkbooks_Workbooks (deref retval t)), err), s'))"

text \<open>
  The \<^verbatim>\<open>range\<close> loops of \<^verbatim>\<open>GetProjectByName\<close> (lines 215-220) and
  \<^verbatim>\<open>GetProjectByID\<close> (lines 229-234), with the return that follows each.
\<close>

fun project_named :: "string \<Rightarrow> Project list \<Rightarrow> Project \<times> error option" where
  "project_named name [] =
     (Project_zero,
      Some (Errorf (''Project Named '' @ [CHR 0x27] @ name @ [CHR 0x27] @ '' Not Found'')))"
| "project_named name (project # rest) =
     (if Project_Name project = name then (project, None) else project_named name rest)"

fun project_with_ID :: "string \<Rightarrow> Project list \<Rightarrow> Project \<times> error option" where
  "project_with_ID ID [] =
     (Project_zero,
      Some (Errorf (''Project with ID '' @ [CHR 0x27] @ ID @ [CHR 0x27] @ '' Not Found'')))"
| "project_with_ID ID (project # rest) =
     (if Project_ID project = ID then (project, None) else project_with_ID ID rest)"

definition GetProjectByName ::
  "('i, 'v, 'w) env \<Rightarrow> string \<Rightarrow> string \<Rightarrow> state \<Rightarrow> (Project \<times> error option) \<times> state" where
  "GetProjectByName e siteID name s =
     (case QueryProjects e siteID s of
        ((projects, err), s') \<Rightarrow>
          (if err \<noteq> None then ((Project_zero, err), s')
           else (project_named name projects, s')))"

definition GetProjectByID ::
  "('i, 'v, 'w) env \<Rightarrow> string \<Rightarrow> string \<Rightarrow> state \<Rightarrow> (Project \<times> error option) \<times> state" where
  "GetProjectByID e siteID ID s =
     (case QueryProjects e siteID s of
        ((projects, err), s') \<Rightarrow>
          (if err \<noteq> None then ((Project_zero, err), s')
           else (project_with_ID ID projects, s')))"

definition QueryDatasources ::
  "('i, 'v, 'w) env \<Rightarrow> string \<Rightarrow> state \<Rightarrow> (Datasource list \<times> error option) \<times> state" where
  "QueryDatasources e siteID s =
     (let url = Server (api s) @ ''/api/'' @ Version (api s) @ ''/sites/'' @ siteID
                  @ ''/datasources'';
          headers = [];
          retval = \<lparr>QueryDatasources_Datasources = \<lparr>Datasources_of = []\<rparr>\<rparr>
      in case makeRequest e url GET None (Ptr (xml_QueryDatasourcesResponse e) retval) headers
                (connectTimeOut e) (readWriteTimeout e) [] s of
           ((err, t), s') \<Rightarrow>
             ((Datasources_of (QueryDatasources_Datasources (deref retval t)), err), s'))"

definition GetSiteID ::
  "('i, 'v, 'w) env \<Rightarrow> string \<Rightarrow> state \<Rightarrow> (string \<times> error option) \<times> state" where
  "GetSiteID e siteName s =
     (case QuerySiteByName e siteName False s of
        ((site, err), s') \<Rightarrow>
          (if err \<noteq> None then (([], err), s') else ((Site_ID site, err), s')))"

subsection \<open>Mutating operations (lines 259-346)\<close>

text \<open>
  A returned pointer is an \<open>option\<close> (\<open>None\<close> is \<^verbatim>\<open>nil\<close>).
\<close>

definition CreateProject ::
  "('i, 'v, 'w) env \<Rightarrow> string \<Rightarrow> Project \<Rightarrow> state
     \<Rightarrow> (Project option \<times> error option) \<times> state" where
  "CreateProject e siteID project s =
     (let url = Server (api s) @ ''/api/'' @ Version (api s) @ ''/sites/'' @ siteID
                  @ ''/projects'';
          createProjectRequest = \<lparr>CreateProject_Request = project\<rparr>
      in case CreateProjectRequest_XML e createProjectRequest of
           Inl err \<Rightarrow> ((None, Some err), s)
         | Inr xmlRep \<Rightarrow>
             (let headers = [(content_type_header, application_xml_content_type)];
                  createProjectResponse = \<lparr>CreateProject_Project = Project_zero\<rparr>
              in case makeRequest e url POST (Some xmlRep)
                        (Ptr (xml_CreateProjectResponse e) createProjectResponse) headers
                        (connectTimeOut e) (readWriteTimeout e) [] s of
                   ((err, t), s') \<Rightarrow>
                     ((Some (CreateProject_Project (deref createProjectResponse t)), err),
                      s')))"

text \<open>
  \<^verbatim>\<open>publishDatasource\<close> (lines 280-302). Its named result \<^verbatim>\<open>retval\<close> is a
  \<^verbatim>\<open>*Datasource\<close> and starts as \<^verbatim>\<open>nil\<close>; nothing assigns to it. It is
  handed by value to \<^verbatim>\<open>makeRequest\<close>, as an interface value holding a
  \<^verbatim>\<open>nil\<close> pointer, and returned.
\<close>

definition publishDatasource ::
  "('i, 'v, 'w) env \<Rightarrow> string \<Rightarrow> Datasource \<Rightarrow> string \<Rightarrow> string \<Rightarrow> bool \<Rightarrow> state
     \<Rightarrow> (Datasource option \<times> error option) \<times> state" where
  \<open>publishDatasource e siteID tdsMetadata datasource datasourceType overwrite s =
     (let retval = (None :: Datasource option);
          url = Server (api s) @ ''/api/'' @ Version (api s) @ ''/sites/'' @ siteID
                  @ ''/datasources?datasourceType='' @ datasourceType
                  @ ''&overwrite='' @ fmt_bool overwrite;
          payload = ''--'' @ Boundary (api s) @ CRLF;
          payload = payload @ ''Content-Disposition: name="request_payload"'' @ CRLF;
          payload = payload @ ''Content-Type: text/xml'' @ CRLF;
          payload = payload @ CRLF;
          tdsRequest = \<lparr>DatasourceCreate_Request = tdsMetadata\<rparr>
      in case DatasourceCreateRequest_XML e tdsRequest of
           Inl err \<Rightarrow> ((retval, Some err), s)
         | Inr xmlRepresentation \<Rightarrow>
             (let payload = payload @ xmlRepresentation;
                  payload = payload @ CRLF @ ''--'' @ Boundary (api s) @ CRLF;
                  payload = payload
                    @ ''Content-Disposition: name="tableau_datasource"; filename="''
                    @ Datasource_Name tdsMetadata @ ''.tds"'' @ CRLF;
                  payload = payload @ ''Content-Type: application/octet-stream'' @ CRLF;
                  payload = payload @ CRLF;
                  payload = payload @ datasource;
                  payload = payload @ CRLF @ ''--'' @ Boundary (api s) @ ''--'' @ CRLF;
                  headers = [(content_type_header,
                              ''multipart/mixed; boundary='' @ Boundary (api s))]
              in case makeRequest e url POST (Some payload)
                        (NilPtr (xml_nil_Datasource e) :: Datasource target) headers
                        (connectTimeOut e) (readWriteTimeout e) [] s of
                   ((err, t), s') \<Rightarrow> ((retval, err), s')))\<close>

definition PublishTDS ::
  "('i, 'v, 'w) env \<Rightarrow> string \<Rightarrow> Datasource \<Rightarrow> string \<Rightarrow> bool \<Rightarrow> state
     \<Rightarrow> (Datasource option \<times> error option) \<times> state" where
  "PublishTDS e siteID tdsMetadata fullTds overwrite s =
     publishDatasource e siteID tdsMetadata fullTds ''tds'' overwrite s"

definition delete :: "('i, 'v, 'w) env \<Rightarrow> string \<Rightarrow> state \<Rightarrow> error option \<times> state" where
  "delete e url s =
     (let headers = [] in
      case makeRequest e url DELETE None (NoTarget :: unit target) headers
             (connectTimeOut e) (readWriteTimeout e) [] s of
        ((err, t), s') \<Rightarrow> (err, s'))"

definition DeleteDatasource ::
  "('i, 'v, 'w) env \<Rightarrow> string \<Rightarrow> string \<Rightarrow> state \<Rightarrow> error option \<times> state" where
  "DeleteDatasource e siteID datasourceID s =
     delete e (Server (api s) @ ''/api/'' @ Version (api s) @ ''/sites/'' @ siteID
                 @ ''/datasources/'' @ datasourceID) s"

definition DeleteProject ::
  "('i, 'v, 'w) env \<Rightarrow> string \<Rightarrow> string \<Rightarrow> state \<Rightarrow> error option \<times> state" where
  "DeleteProject e siteID projectID s =
     delete e (Server (api s) @ ''/api/'' @ Version (api s) @ ''/sites/'' @ siteID
                 @ ''/projects/'' @ projectID) s"

definition DeleteSite ::
  "('i, 'v, 'w) env \<Rightarrow> string \<Rightarrow> state \<Rightarrow> error option \<times> state" where
  "DeleteSite e siteID s =
     delete e (Server (api s) @ ''/api/'' @ Version (api s) @ ''/sites/'' @ siteID) s"

definition deleteSiteByKey ::
  "('i, 'v, 'w) env \<Rightarrow> string \<Rightarrow> string \<Rightarrow> state \<Rightarrow> error option \<times> state" where
  "deleteSiteByKey e key val s =
     delete e (Server (api s) @ ''/api/'' @ Version (api s) @ ''/sites/'' @ val
                 @ ''?key='' @ key) s"

definition DeleteSiteByName ::
  "('i, 'v, 'w) env \<Rightarrow> string \<Rightarrow> state \<Rightarrow> error option \<times> state" where
  "DeleteSiteByName e name s = deleteSiteByKey e ''name'' name s"

definition DeleteSiteByContentURL ::
  "('i, 'v, 'w) env \<Rightarrow> string \<Rightarrow> state \<Rightarrow> error option \<times> state" where
  "DeleteSiteByContentURL e contentURL s = deleteSiteByKey e ''contentUrl'' contentURL s"

subsection \<open>What a call put on the wire\<close>

text \<open>
  The requests that a call handed to the HTTP client: those of the state after the call
  that the state before it did not have.
\<close>

definition sent :: "state \<Rightarrow> state \<Rightarrow> Request list" where
  "sent s s' = map (\<lambda>(cTimeout, rwTimeout, req). req) (drop (length (wire s)) (wire s'))"

text \<open>
  A call targets a URL when it hands the client at most one request, and that request is
  for the URL (as \<^verbatim>\<open>strings.TrimSpace\<close> leaves it, line 361).
\<close>

definition targets :: "('i, 'v, 'w) env \<Rightarrow> state \<Rightarrow> state \<Rightarrow> string \<Rightarrow> bool" where
  "targets e s s' url \<longleftrightarrow>
     map URL (sent s s') = [] \<or> map URL (sent s s') = [strings_TrimSpace e url]"

text \<open>
  A call sends to a URL with a method when it hands the client exactly one request, for
  that URL, if \<^verbatim>\<open>http.NewRequest\<close> accepts the method and the URL (both trimmed),
  and no request if it refuses them.
\<close>

definition sends_to ::
  "('i, 'v, 'w) env \<Rightarrow> state \<Rightarrow> state \<Rightarrow> string \<Rightarrow> string \<Rightarrow> bool" where
  "sends_to e s s' method url \<longleftrightarrow>
     map URL (sent s s') =
       (if NewRequest_err e (strings_TrimSpace e method) (strings_TrimSpace e url) = None
        then [strings_TrimSpace e url] else [])"

subsection \<open>A test server\<close>

text \<open>
  An environment for running the model on concrete inputs: a server that answers every
  request with the given status and body. Nothing is trimmed or refused, header keys are
  kept as they are. The serialisers write the names they are given; the decoder of the
  sign-in response takes the body as the token, the decoder of the project list answers
  three projects, the last two named by the body; the decoder of the error body fails on
  the empty body and else takes the body as the summary.
\<close>

definition test_env :: "int \<Rightarrow> string \<Rightarrow> (unit, unit, unit) env" where
  \<open>test_env status body =
     \<lparr>connectTimeOut = 5000000000,
      readWriteTimeout = 30000000000,
      strings_TrimSpace = (\<lambda>x. x),
      CanonicalHeaderKey = (\<lambda>k. k),
      NewRequest_err = (\<lambda>method url. None),
      client_Do = (\<lambda>history cTimeout rwTimeout req.
                     Inr \<lparr>StatusCode = status, Body_read = (body, None)\<rparr>),
      Values_Encode = (\<lambda>vals. []),
      SigninRequest_XML = (\<lambda>r. Inr (''<credentials name="'' @ Cred_Name (Signin_Request r)
         @ ''"><site contentUrl="''
         @ (case Cred_Site (Signin_Request r) of None \<Rightarrow> [] | Some site \<Rightarrow> ContentUrl site)
         @ ''"/></credentials>'')),
      CreateProjectRequest_XML = (\<lambda>r. Inr (''<project name="''
         @ Project_Name (CreateProject_Request r) @ ''"/>'')),
      DatasourceCreateRequest_XML = (\<lambda>r. Inr (''<datasource name="''
         @ Datasource_Name (DatasourceCreate_Request r) @ ''"/>'')),
      ServerInfo_zero = (),
      xml_ErrorResponse = (\<lambda>b v. if b = [] then (Some (LibError ''EOF''), v)
         else (None, \<lparr>Error = \<lparr>Code = [], Summary = b, Detail = []\<rparr>\<rparr>)),
      xml_AuthResponse = (\<lambda>b v. (None, \<lparr>Auth_Credentials = (Auth_Credentials v)\<lparr>Token := b\<rparr>\<rparr>)),
      xml_ServerInfoResponse = (\<lambda>b v. (None, v)),
      xml_QuerySitesResponse = (\<lambda>b v. (None, v)),
      xml_QuerySiteResponse = (\<lambda>b v. (None, v)),
      xml_QueryUserOnSiteResponse = (\<lambda>b v. (None, v)),
      xml_QueryProjectsResponse = (\<lambda>b v. (None,
         \<lparr>QueryProjects_Projects = \<lparr>Projects_of =
            [\<lparr>Project_ID = ''p0'', Project_Name = ''Default''\<rparr>,
             \<lparr>Project_ID = ''p1'', Project_Name = b\<rparr>,
             \<lparr>Project_ID = ''p2'', Project_Name = b\<rparr>]\<rparr>\<rparr>)),
      xml_QueryViewsResponse = (\<lambda>b v. (None, v)),
      xml_QueryWorkbooksResponse = (\<lambda>b v. (None, v)),
      xml_QueryDatasourcesResponse = (\<lambda>b v. (None, v)),
      xml_CreateProjectResponse = (\<lambda>b v. (None, v)),
      xml_csv_Reader = (\<lambda>b v. (None, v)),
      xml_nil_Datasource = (\<lambda>b. None)\<rparr>\<close>

definition test_api :: API where
  "test_api = \<lparr>Server = ''https://bi.example.com'', Version = ''2.0'', Boundary = ''B1'',
               AuthToken = [], OmitDefaultSiteName = True, DefaultSiteName = ''Default''\<rparr>"

definition test_state :: state where
  "test_state = \<lparr>api = test_api, Debug = False, stdout = [], wire = []\<rparr>"

definition test_request :: Request where
  "test_request = \<lparr>Method = ''GET'', URL = ''https://bi.example.com/api/2.0/sites/'',
                   Body = None, Header = (\<lambda>k. [])\<rparr>"

text \<open>The state after signing in to the test server when it answers the token \<open>tok\<close>.\<close>

definition signed_in :: state where
  "signed_in = snd (Signin (test_env 200 ''tok'') ''alice'' ''secret'' ''Default'' [] test_state)"

definition sales :: Datasource where
  "sales = \<lparr>Datasource_ID = [], Datasource_Name = ''Sales''\<rparr>"

text \<open>A query sent with the token \<open>tok\<close>, and the projects the test server lists.\<close>

definition auth_request :: Request where
  "auth_request = \<lparr>Method = ''GET'', URL = ''https://bi.example.com/api/2.0/sites/'',
                   Body = None, Header = (\<lambda>k. [])(''X-Tableau-Auth'' := [''tok''])\<rparr>"

definition test_projects :: "Project list" where
  "test_projects = [\<lparr>Project_ID = ''p0'', Project_Name = ''Default''\<rparr>,
                    \<lparr>Project_ID = ''p1'', Project_Name = ''Finance''\<rparr>,
                    \<lparr>Project_ID = ''p2'', Project_Name = ''Finance''\<rparr>]"

text \<open>
  The body that the publish property of the spec describes, for the boundary \<open>B1\<close>,
  the datasource name \<open>Sales\<close> and the content \<^verbatim>\<open><rows/>\<close>, around the
  serialised metadata: the opening delimiter, the metadata part, the delimiter, the
  datasource part, and the closing delimiter, each line ended by CR LF.
\<close>

definition multipart_B1_Sales :: "string \<Rightarrow> string" where
  \<open>multipart_B1_Sales xmlRepresentation =
     ''--B1'' @ CRLF
     @ ''Content-Disposition: name="request_payload"'' @ CRLF
     @ ''Content-Type: text/xml'' @ CRLF
     @ CRLF
     @ xmlRepresentation
     @ CRLF @ ''--B1'' @ CRLF
     @ ''Content-Disposition: name="tableau_datasource"; filename="Sales.tds"'' @ CRLF
     @ ''Content-Type: application/octet-stream'' @ CRLF
     @ CRLF
     @ ''<rows/>''
     @ CRLF @ ''--B1--'' @ CRLF\<close>

text \<open>The answer of a server to a publish request.\<close>

definition published :: string where
  \<open>published = ''<tsResponse><datasource id="d1" name="Sales"/></tsResponse>''\<close>

section \<open>Properties\<close>

subsection \<open>What makeRequest leaves alone, and what it sends\<close>

lemma debug_request_frame [simp]:
  "api (debug_request m u p s) = api s"
  "wire (debug_request m u p s) = wire s"
  "Debug (debug_request m u p s) = Debug s"
  by (simp_all add: debug_request_def Printf_def Let_def split: option.splits)

lemma debug_auth_frame [simp]:
  "api (debug_auth s) = api s"
  "wire (debug_auth s) = wire s"
  "Debug (debug_auth s) = Debug s"
  by (simp_all add: debug_auth_def Printf_def)

lemma read_response_frame [simp]:
  "api (snd (read_response e format result resp s)) = api s"
  "wire (snd (read_response e format result resp s)) = wire s"
  by (simp_all add: read_response_def Printf_def Let_def split: prod.splits option.splits)

lemma makeRequest_api:
  "api (snd (makeRequest e u m p result hs ct rw f s)) = api s"
  by (simp add: makeRequest_def Let_def split: sum.splits)

lemma makeRequest_api_eq:
  "makeRequest e u m p result hs ct rw f s = (r, s') \<Longrightarrow> api s' = api s"
  using makeRequest_api [of e u m p result hs ct rw f s] by simp

lemma makeRequest_wire:
  "wire (snd (makeRequest e u m p result hs ct rw f s)) =
     (case build_request e (api s) m u p hs of
        Inl err \<Rightarrow> wire s
      | Inr req \<Rightarrow> wire s @ [(ct, rw, req)])"
  by (simp add: makeRequest_def Let_def split: sum.splits)

lemma makeRequest_sent:
  "sent s (snd (makeRequest e u m p result hs ct rw f s)) =
     (case build_request e (api s) m u p hs of
        Inl err \<Rightarrow> []
      | Inr req \<Rightarrow> [req])"
  by (simp add: sent_def makeRequest_wire split: sum.splits)

lemma makeRequest_sent_eq:
  assumes "makeRequest e u m p result hs ct rw f s = (r, s')"
  shows "sent s s' = (case build_request e (api s) m u p hs of Inl err \<Rightarrow> [] | Inr req \<Rightarrow> [req])"
  using makeRequest_sent [where s = s and e = e and u = u and m = m
        and p = p and result = result and hs = hs and ct = ct
        and rw = rw and f = f] assms by simp

lemma makeRequest_result:
  "build_request e (api s) m u p hs = Inr req \<Longrightarrow>
   client_Do e (wire s) ct rw req = Inr resp \<Longrightarrow>
   fst (makeRequest e u m p result hs ct rw f s) =
     fst (read_response e f result resp
            ((debug_auth (debug_request m u p s))\<lparr>wire := wire s @ [(ct, rw, req)]\<rparr>))"
  by (simp add: makeRequest_def Let_def)

lemma sent_api_update [simp]: "sent s (s'\<lparr>api := a\<rparr>) = sent s s'"
  by (simp add: sent_def)

lemma sent_same [simp]: "sent s s = []"
  by (simp add: sent_def)

text \<open>The request depends on the environment only through the first three functions.\<close>

lemma add_headers_cong:
  "CanonicalHeaderKey e' = CanonicalHeaderKey e \<Longrightarrow> add_headers e' hs h = add_headers e hs h"
  by (induction hs arbitrary: h) (auto simp: Header_Add_def)

lemma build_request_cong:
  assumes "strings_TrimSpace e' = strings_TrimSpace e"
    and "CanonicalHeaderKey e' = CanonicalHeaderKey e"
    and "NewRequest_err e' = NewRequest_err e"
  shows "build_request e' a m u p hs = build_request e a m u p hs"
  using assms
  by (simp add: build_request_def new_request_def http_NewRequest_def add_auth_def
      Header_Add_def add_headers_cong [OF assms(2)] split: sum.splits option.splits)

lemma build_request_Body:
  "build_request e a m u p hs = Inr req \<Longrightarrow>
   Body req = (case p of None \<Rightarrow> None | Some b \<Rightarrow> if b = [] then None else Some b)"
  by (auto simp: build_request_def new_request_def http_NewRequest_def add_auth_def
      split: sum.splits option.splits if_splits)

lemma build_request_URL:
  "build_request e a m u p hs = Inr req \<Longrightarrow> URL req = strings_TrimSpace e u"
  by (auto simp: build_request_def new_request_def http_NewRequest_def add_auth_def
      split: sum.splits option.splits if_splits)

lemma build_request_ok:
  "NewRequest_err e (strings_TrimSpace e m) (strings_TrimSpace e u) = None \<Longrightarrow>
   \<exists>req. build_request e a m u p hs = Inr req"
  by (simp add: build_request_def new_request_def http_NewRequest_def split: option.splits)

lemma build_request_Version [simp]:
  "build_request e (a\<lparr>Version := v\<rparr>) m u p hs = build_request e a m u p hs"
  by (simp add: build_request_def add_auth_def split: sum.splits)

lemma test_build:
  "build_request (test_env status body) (api test_state) GET
       ''https://bi.example.com/api/2.0/sites/'' None [] = Inr test_request"
  by (simp add: build_request_def new_request_def http_NewRequest_def test_env_def
      test_state_def test_api_def add_auth_def GET_def test_request_def)

subsection \<open>Status 404\<close>

text \<open>
  C1. When the client answers a response with status 404 whose body was read without
  error, \<^verbatim>\<open>makeRequest\<close> returns \<^verbatim>\<open>ErrDoesNotExist\<close>, whatever the body is,
  and the value the decode target points to is as it was. The body is not parsed: the
  result is the same whatever \<^verbatim>\<open>xml.Unmarshal\<close> would do with it, at the error
  schema (\<open>g\<close>) and at the target's type (the decoder inside \<open>result\<close>).
\<close>

theorem makeRequest_404:
  assumes "build_request e (api s) method requestURL payload headers = Inr req"
    and "client_Do e (wire s) cTimeout rwTimeout req = Inr resp"
    and "StatusCode resp = 404"
    and "Body_read resp = (body, None)"
  shows "fst (makeRequest (e\<lparr>xml_ErrorResponse := g\<rparr>) requestURL method payload result
            headers cTimeout rwTimeout format s) = (Some ErrDoesNotExist, result)"
proof -
  have "build_request (e\<lparr>xml_ErrorResponse := g\<rparr>) (api s) method requestURL payload headers
          = Inr req"
    using assms(1) by (simp add: build_request_cong [of "e\<lparr>xml_ErrorResponse := g\<rparr>" e])
  with assms(2-4) show ?thesis
    by (simp add: makeRequest_def Let_def read_response_def)
qed

theorem makeRequest_404_witness:
  "build_request (test_env 404 ''<<<'') (api test_state) GET
       ''https://bi.example.com/api/2.0/sites/'' None [] = Inr test_request \<and>
   client_Do (test_env 404 ''<<<'') (wire test_state) 1 1 test_request
       = Inr \<lparr>StatusCode = 404, Body_read = (''<<<'', None)\<rparr> \<and>
   fst (makeRequest
          ((test_env 404 ''<<<'')\<lparr>xml_ErrorResponse := (\<lambda>b v. (Some (Panic ''parsed''), v))\<rparr>)
          ''https://bi.example.com/api/2.0/sites/'' GET None
          (Ptr (\<lambda>b v. (Some (Panic ''decoded''), v)) ()) [] 1 1 [] test_state)
     = (Some ErrDoesNotExist, Ptr (\<lambda>b v. (Some (Panic ''decoded''), v)) ())"
proof -
  have b: "build_request (test_env 404 ''<<<'') (api test_state) GET
             ''https://bi.example.com/api/2.0/sites/'' None [] = Inr test_request"
    by (rule test_build)
  have d: "client_Do (test_env 404 ''<<<'') (wire test_state) 1 1 test_request
             = Inr \<lparr>StatusCode = 404, Body_read = (''<<<'', None)\<rparr>"
    by (simp add: test_env_def)
  have "fst (makeRequest
          ((test_env 404 ''<<<'')\<lparr>xml_ErrorResponse := (\<lambda>b v. (Some (Panic ''parsed''), v))\<rparr>)
          ''https://bi.example.com/api/2.0/sites/'' GET None
          (Ptr (\<lambda>b v. (Some (Panic ''decoded''), v)) ()) [] 1 1 [] test_state)
     = (Some ErrDoesNotExist, Ptr (\<lambda>b v. (Some (Panic ''decoded''), v)) ())"
    by (rule makeRequest_404 [OF b d]) simp_all
  with b d show ?thesis by simp
qed

subsection \<open>Other statuses from 300\<close>

lemma error_status_result:
  assumes "build_request e (api s) method requestURL payload headers = Inr req"
    and "client_Do e (wire s) cTimeout rwTimeout req = Inr resp"
    and "Body_read resp = (body, None)"
    and "StatusCode resp \<ge> 300" and "StatusCode resp \<noteq> 404"
  shows "fst (makeRequest e requestURL method payload result headers cTimeout rwTimeout format s) =
           (case xml_ErrorResponse e body \<lparr>Error = TError_zero\<rparr> of
              (Some err, tErrorResponse) \<Rightarrow> Some err
            | (None, tErrorResponse) \<Rightarrow> Some (ServerError (Error tErrorResponse)),
            result)"
  using assms
  by (simp add: makeRequest_def Let_def read_response_def split: prod.splits option.splits)

text \<open>
  C2. When the client answers a response with a status from 300 other than 404, whose
  body was read without error, \<^verbatim>\<open>makeRequest\<close> decodes the body at the error
  schema and returns the decoded \<^verbatim>\<open>TError\<close>; when the decoding fails it returns
  the decoder's error. Either way the error is made from the body alone: the call
  returns the same for every other such status \<open>c\<close> the server could have answered
  with that body.
\<close>

theorem makeRequest_error_status:
  assumes "build_request e (api s) method requestURL payload headers = Inr req"
    and "client_Do e (wire s) cTimeout rwTimeout req = Inr resp"
    and "Body_read resp = (body, None)"
    and "StatusCode resp \<ge> 300" and "StatusCode resp \<noteq> 404"
  shows "fst (makeRequest e requestURL method payload result headers cTimeout rwTimeout
                format s) =
           (case xml_ErrorResponse e body \<lparr>Error = TError_zero\<rparr> of
              (Some err, tErrorResponse) \<Rightarrow> Some err
            | (None, tErrorResponse) \<Rightarrow> Some (ServerError (Error tErrorResponse)),
            result) \<and>
         (\<forall>c. c \<ge> 300 \<and> c \<noteq> 404 \<longrightarrow>
            fst (makeRequest
                   (e\<lparr>client_Do := (\<lambda>history ct rw r. Inr (resp\<lparr>StatusCode := c\<rparr>))\<rparr>)
                   requestURL method payload result headers cTimeout rwTimeout format s) =
            fst (makeRequest e requestURL method payload result headers cTimeout rwTimeout
                   format s))"
proof -
  let ?rhs = "(case xml_ErrorResponse e body \<lparr>Error = TError_zero\<rparr> of
              (Some err, tErrorResponse) \<Rightarrow> Some err
            | (None, tErrorResponse) \<Rightarrow> Some (ServerError (Error tErrorResponse)),
            result)"
  have one: "fst (makeRequest e requestURL method payload result headers cTimeout rwTimeout
                format s) = ?rhs"
    by (rule error_status_result [OF assms])
  have other: "fst (makeRequest
                   (e\<lparr>client_Do := (\<lambda>history ct rw r. Inr (resp\<lparr>StatusCode := c\<rparr>))\<rparr>)
                   requestURL method payload result headers cTimeout rwTimeout format s) = ?rhs"
    if c: "c \<ge> 300" "c \<noteq> 404" for c
  proof -
    let ?e = "e\<lparr>client_Do := (\<lambda>history ct rw r. Inr (resp\<lparr>StatusCode := c\<rparr>))\<rparr>"
    have b: "build_request ?e (api s) method requestURL payload headers = Inr req"
      using assms(1) by (simp add: build_request_cong [of ?e e])
    have d: "client_Do ?e (wire s) cTimeout rwTimeout req = Inr (resp\<lparr>StatusCode := c\<rparr>)"
      by simp
    show ?thesis
      using error_status_result [OF b d, of body result format] assms(3) c by simp
  qed
  from one other show ?thesis by simp
qed

theorem makeRequest_error_status_witness:
  "build_request (test_env 500 []) (api test_state) GET
       ''https://bi.example.com/api/2.0/sites/'' None [] = Inr test_request \<and>
   client_Do (test_env 500 []) (wire test_state) 1 1 test_request
       = Inr \<lparr>StatusCode = 500, Body_read = ([], None)\<rparr> \<and>
   fst (makeRequest (test_env 500 []) ''https://bi.example.com/api/2.0/sites/'' GET None
          (NoTarget :: unit target) [] 1 1 [] test_state)
     = (Some (LibError ''EOF''), NoTarget) \<and>
   fst (makeRequest
          ((test_env 500 [])\<lparr>client_Do := (\<lambda>history ct rw r.
              Inr (\<lparr>StatusCode = 500, Body_read = ([], None)\<rparr>\<lparr>StatusCode := 503\<rparr>))\<rparr>)
          ''https://bi.example.com/api/2.0/sites/'' GET None
          (NoTarget :: unit target) [] 1 1 [] test_state)
     = (Some (LibError ''EOF''), NoTarget)"
proof -
  have b: "build_request (test_env 500 []) (api test_state) GET
             ''https://bi.example.com/api/2.0/sites/'' None [] = Inr test_request"
    by (rule test_build)
  have d: "client_Do (test_env 500 []) (wire test_state) 1 1 test_request
             = Inr \<lparr>StatusCode = 500, Body_read = ([], None)\<rparr>"
    by (simp add: test_env_def)
  have x: "xml_ErrorResponse (test_env 500 []) [] \<lparr>Error = TError_zero\<rparr>
             = (Some (LibError ''EOF''), \<lparr>Error = TError_zero\<rparr>)"
    by (simp add: test_env_def)
  have c: "(503::int) \<ge> 300 \<and> (503::int) \<noteq> 404" by simp
  from makeRequest_error_status [OF b d, of "[]" "NoTarget :: unit target" "[]"] c
  show ?thesis using b d by (simp add: x)
qed

subsection \<open>Signing out\<close>

text \<open>
  C9. \<^verbatim>\<open>Signout\<close> does not modify the session's \<^verbatim>\<open>AuthToken\<close>: in the state
  it returns, with an error or without, the field holds what it held before the call.
\<close>

theorem Signout_keeps_token:
  "AuthToken (api (snd (Signout e s))) = AuthToken (api s)"
  by (auto simp: Signout_def Let_def split: prod.splits dest!: makeRequest_api_eq)

subsection \<open>Running the model on the test server\<close>

lemmas run_defs = makeRequest_def build_request_def new_request_def http_NewRequest_def
  add_auth_def debug_request_def debug_auth_def read_response_def decode_result_def
  Header_Add_def Printf_def sent_def Let_def
  content_type_header_def content_length_header_def auth_header_def
  application_xml_content_type_def POST_def GET_def DELETE_def

lemmas test_defs = test_env_def test_state_def test_api_def

lemma Signin_test:
  "fst (Signin (test_env 200 ''tok'') ''alice'' ''secret'' ''Default'' [] test_state) = None"
  by (simp add: Signin_def Signin_request_def run_defs test_defs Credentials_zero_def
      Site_zero_def)

lemma signed_in_api: "api signed_in = test_api\<lparr>AuthToken := ''tok''\<rparr>"
  by (simp add: signed_in_def Signin_def Signin_request_def run_defs test_defs Credentials_zero_def
      Site_zero_def)

lemma signed_in_wire: "length (wire signed_in) = 1"
  by (simp add: signed_in_def Signin_def Signin_request_def run_defs test_defs Credentials_zero_def
      Site_zero_def)

lemma signed_in_sent:
  \<open>map Body (sent test_state signed_in) =
      [Some ''<credentials name="alice"><site contentUrl=""/></credentials>'']\<close>
  by (simp add: signed_in_def Signin_def Signin_request_def run_defs test_defs Credentials_zero_def
      Site_zero_def)

lemma signed_in_next:
  "sent signed_in (snd (makeRequest (test_env 200 []) ''https://bi.example.com/api/2.0/sites/''
       GET None (NoTarget :: unit target) [] 1 1 [] signed_in)) = [auth_request]"
  by (simp add: makeRequest_sent signed_in_api build_request_def new_request_def
      http_NewRequest_def add_auth_def Header_Add_def test_defs GET_def auth_header_def
      auth_request_def)

lemma test_next:
  "sent test_state (snd (makeRequest (test_env 200 []) ''https://bi.example.com/api/2.0/sites/''
       GET None (NoTarget :: unit target) [(''Content-Type'', ''application/xml'')] 1 1 []
       test_state)) =
     [test_request\<lparr>Header := (\<lambda>k. [])(''Content-Type'' := [''application/xml''])\<rparr>]"
  by (simp add: makeRequest_sent build_request_def new_request_def
      http_NewRequest_def add_auth_def Header_Add_def test_defs GET_def auth_header_def
      test_request_def)

lemma QueryProjects_test:
  "fst (QueryProjects (test_env 200 ''Finance'') ''siteX'' test_state) = (test_projects, None)"
  by (simp add: QueryProjects_def run_defs test_defs test_projects_def)

subsection \<open>Signing in\<close>

lemma makeRequest_ok_Ptr:
  assumes "makeRequest e u m p (Ptr dec v) hs ct rw f s = ((None, t), s')" and "f \<noteq> ''csv''"
  shows "\<exists>req resp body v'. sent s s' = [req] \<and> build_request e (api s) m u p hs = Inr req
           \<and> client_Do e (wire s) ct rw req = Inr resp \<and> Body_read resp = (body, None)
           \<and> StatusCode resp < 300 \<and> dec body v = (None, v') \<and> t = Ptr dec v'"
proof -
  from assms(1) obtain req where b: "build_request e (api s) m u p hs = Inr req"
    by (cases "build_request e (api s) m u p hs") (auto simp: makeRequest_def Let_def)
  from assms(1) b obtain resp where d: "client_Do e (wire s) ct rw req = Inr resp"
    by (cases "client_Do e (wire s) ct rw req") (auto simp: makeRequest_def Let_def)
  have s': "sent s s' = [req]"
    using makeRequest_sent_eq [OF assms(1)] b by simp
  have r: "fst (read_response e f (Ptr dec v) resp
            ((debug_auth (debug_request m u p s))\<lparr>wire := wire s @ [(ct, rw, req)]\<rparr>)) = (None, t)"
    using makeRequest_result [OF b d, where result = "Ptr dec v" and f = f] assms(1) by simp
  obtain body rerr where br: "Body_read resp = (body, rerr)" by (cases "Body_read resp")
  from r br assms(2) have "rerr = None \<and> StatusCode resp < 300 \<and> (\<exists>v'. dec body v = (None, v') \<and> t = Ptr dec v')"
    by (auto simp: read_response_def decode_result_def Let_def
        split: option.splits if_splits prod.splits)
  with b d s' br show ?thesis by blast
qed

lemma Signin_unfold:
  assumes "SigninRequest_XML e
             (Signin_request (api s) username password contentURL userIDToImpersonate)
           = Inr signInXML"
    and "makeRequest e (Server (api s) @ ''/api/'' @ Version (api s) @ ''/auth/signin'')
           POST (Some signInXML)
           (Ptr (xml_AuthResponse e) \<lparr>Auth_Credentials = Credentials_zero\<rparr>)
           [(content_type_header, application_xml_content_type)]
           (connectTimeOut e) (readWriteTimeout e) [] s = ((merr, t), s1)"
  shows "Signin e username password contentURL userIDToImpersonate s =
     (if merr = None
      then (merr, s1\<lparr>api := (api s1)\<lparr>AuthToken := Token (Auth_Credentials
              (deref \<lparr>Auth_Credentials = Credentials_zero\<rparr> t))\<rparr>\<rparr>)
      else (merr, s1))"
  unfolding Signin_def Let_def assms sum.case by simp

text \<open>
  C3. \<^verbatim>\<open>Signin\<close> stores a token exactly when the request it dispatched succeeded.
  When it returns no error, it sent one request, the client answered it with a response
  whose body was read and decoded at the sign-in response schema without error, and the
  session is the one before the call with \<^verbatim>\<open>AuthToken\<close> set to the token of the
  decoded response. When it returns an error (from the serialiser, before anything is
  sent, or from \<^verbatim>\<open>makeRequest\<close>), the session is unchanged.
\<close>

theorem Signin_stores_token:
  assumes "Signin e username password contentURL userIDToImpersonate s = (err, s')"
  shows "(err \<noteq> None \<longrightarrow> api s' = api s) \<and>
         (err = None \<longrightarrow>
            (\<exists>req resp body retval.
               sent s s' = [req] \<and>
               client_Do e (wire s) (connectTimeOut e) (readWriteTimeout e) req = Inr resp \<and>
               Body_read resp = (body, None) \<and>
               xml_AuthResponse e body \<lparr>Auth_Credentials = Credentials_zero\<rparr> = (None, retval) \<and>
               api s' = (api s)\<lparr>AuthToken := Token (Auth_Credentials retval)\<rparr>))"
proof (cases "SigninRequest_XML e
                (Signin_request (api s) username password contentURL userIDToImpersonate)")
  case (Inl xerr)
  then have "Signin e username password contentURL userIDToImpersonate s = (Some xerr, s)"
    by (simp add: Signin_def Let_def)
  with assms show ?thesis by auto
next
  case (Inr signInXML)
  obtain merr t s1 where m: "makeRequest e
       (Server (api s) @ ''/api/'' @ Version (api s) @ ''/auth/signin'')
       POST (Some signInXML) (Ptr (xml_AuthResponse e) \<lparr>Auth_Credentials = Credentials_zero\<rparr>)
       [(content_type_header, application_xml_content_type)]
       (connectTimeOut e) (readWriteTimeout e) [] s = ((merr, t), s1)"
    by (metis surj_pair)
  have a1: "api s1 = api s" by (rule makeRequest_api_eq [OF m])
  note S = Signin_unfold [OF Inr m]
  show ?thesis
  proof (cases merr)
    case (Some x)
    with S assms a1 show ?thesis by auto
  next
    case None
    from makeRequest_ok_Ptr [OF m [unfolded None]]
    obtain req resp body v' where k: "sent s s1 = [req]"
      "client_Do e (wire s) (connectTimeOut e) (readWriteTimeout e) req = Inr resp"
      "Body_read resp = (body, None)"
      "xml_AuthResponse e body \<lparr>Auth_Credentials = Credentials_zero\<rparr> = (None, v')"
      "t = Ptr (xml_AuthResponse e) v'"
      by auto
    from S None assms have e: "err = None"
      "s' = s1\<lparr>api := (api s1)\<lparr>AuthToken := Token (Auth_Credentials v')\<rparr>\<rparr>"
      using k(5) by auto
    have "sent s s' = sent s s1" by (simp add: e)
    with k e a1 show ?thesis by auto
  qed
qed

theorem Signin_stores_token_witness:
  "Signin (test_env 200 ''tok'') ''alice'' ''secret'' ''Default'' [] test_state = (None, signed_in) \<and>
   (\<exists>req resp body retval.
      sent test_state signed_in = [req] \<and>
      client_Do (test_env 200 ''tok'') (wire test_state) (connectTimeOut (test_env 200 ''tok''))
        (readWriteTimeout (test_env 200 ''tok'')) req = Inr resp \<and>
      Body_read resp = (body, None) \<and>
      xml_AuthResponse (test_env 200 ''tok'') body \<lparr>Auth_Credentials = Credentials_zero\<rparr>
        = (None, retval) \<and>
      api signed_in = (api test_state)\<lparr>AuthToken := Token (Auth_Credentials retval)\<rparr>) \<and>
   AuthToken (api signed_in) = ''tok'' \<and>
   Signin (test_env 401 ''denied'') ''alice'' ''wrong'' ''Default'' [] signed_in
     = (Some (ServerError \<lparr>Code = [], Summary = ''denied'', Detail = []\<rparr>),
        snd (Signin (test_env 401 ''denied'') ''alice'' ''wrong'' ''Default'' [] signed_in)) \<and>
   AuthToken (api (snd (Signin (test_env 401 ''denied'') ''alice'' ''wrong'' ''Default'' []
                          signed_in))) = ''tok''"
proof -
  have h: "Signin (test_env 200 ''tok'') ''alice'' ''secret'' ''Default'' [] test_state
             = (None, signed_in)"
    using Signin_test by (simp add: signed_in_def prod_eq_iff)
  from Signin_stores_token [OF h]
  have 1: "\<exists>req resp body retval.
      sent test_state signed_in = [req] \<and>
      client_Do (test_env 200 ''tok'') (wire test_state) (connectTimeOut (test_env 200 ''tok''))
        (readWriteTimeout (test_env 200 ''tok'')) req = Inr resp \<and>
      Body_read resp = (body, None) \<and>
      xml_AuthResponse (test_env 200 ''tok'') body \<lparr>Auth_Credentials = Credentials_zero\<rparr>
        = (None, retval) \<and>
      api signed_in = (api test_state)\<lparr>AuthToken := Token (Auth_Credentials retval)\<rparr>"
    by simp
  have f: "fst (Signin (test_env 401 ''denied'') ''alice'' ''wrong'' ''Default'' [] signed_in)
             = Some (ServerError \<lparr>Code = [], Summary = ''denied'', Detail = []\<rparr>)"
    by (simp add: Signin_def Signin_request_def run_defs test_env_def signed_in_api
        test_api_def Credentials_zero_def Site_zero_def TError_zero_def)
  then have h2: "Signin (test_env 401 ''denied'') ''alice'' ''wrong'' ''Default'' [] signed_in
     = (Some (ServerError \<lparr>Code = [], Summary = ''denied'', Detail = []\<rparr>),
        snd (Signin (test_env 401 ''denied'') ''alice'' ''wrong'' ''Default'' [] signed_in))"
    by (simp add: prod_eq_iff)
  from Signin_stores_token [OF h2]
  have 2: "AuthToken (api (snd (Signin (test_env 401 ''denied'') ''alice'' ''wrong'' ''Default'' []
                          signed_in))) = ''tok''"
    by (simp add: signed_in_api)
  from h 1 h2 2 show ?thesis by (simp add: signed_in_api)
qed

subsection \<open>The authentication header\<close>

lemma add_headers_other:
  "\<forall>(k, v) \<in> set hs. CanonicalHeaderKey e k \<noteq> key \<Longrightarrow> add_headers e hs h key = h key"
  by (induction hs arbitrary: h) (auto simp: Header_Add_def Let_def)

lemma new_request_Header:
  "new_request e m u p = Inr req \<Longrightarrow> CanonicalHeaderKey e content_length_header \<noteq> key \<Longrightarrow>
   Header req key = []"
  by (auto simp: new_request_def http_NewRequest_def Header_Add_def Let_def
      split: option.splits if_splits sum.splits)

lemma build_request_auth:
  assumes "build_request e a m u p hs = Inr req"
  shows "(AuthToken a \<noteq> [] \<longrightarrow>
            Header req (CanonicalHeaderKey e auth_header) \<noteq> [] \<and>
            last (Header req (CanonicalHeaderKey e auth_header)) = AuthToken a) \<and>
         (AuthToken a = [] \<and>
          (\<forall>(k, v) \<in> set hs. CanonicalHeaderKey e k \<noteq> CanonicalHeaderKey e auth_header) \<and>
          CanonicalHeaderKey e content_length_header \<noteq> CanonicalHeaderKey e auth_header \<longrightarrow>
            Header req (CanonicalHeaderKey e auth_header) = [])"
proof -
  from assms obtain req0 where n: "new_request e m u p = Inr req0"
    and r: "req = add_auth e a (req0\<lparr>Header := add_headers e hs (Header req0)\<rparr>)"
    by (auto simp: build_request_def split: sum.splits)
  show ?thesis
    using new_request_Header [OF n] add_headers_other [of hs e "CanonicalHeaderKey e auth_header" "Header req0"]
    by (auto simp: r add_auth_def Header_Add_def Let_def)
qed

text \<open>
  C4. Every request that \<^verbatim>\<open>makeRequest\<close> hands to the client on a session whose
  token is not empty (as it is after a \<^verbatim>\<open>Signin\<close> that stored a non-empty token,
  until the token is changed) carries the token as the last value of the header
  \<^verbatim>\<open>X-Tableau-Auth\<close>. When the session's token is empty, the request has no value
  under that header, provided the caller's header map has no entry for it (no operation
  of \<^verbatim>\<open>client.go\<close> passes one) and the content-length key is another key.
\<close>

theorem auth_header_attached:
  assumes "makeRequest e requestURL method payload result headers cTimeout rwTimeout format s
             = (r, s')"
    and "sent s s' = [req]"
  shows "(AuthToken (api s) \<noteq> [] \<longrightarrow>
            Header req (CanonicalHeaderKey e auth_header) \<noteq> [] \<and>
            last (Header req (CanonicalHeaderKey e auth_header)) = AuthToken (api s)) \<and>
         (AuthToken (api s) = [] \<and>
          (\<forall>(k, v) \<in> set headers.
              CanonicalHeaderKey e k \<noteq> CanonicalHeaderKey e auth_header) \<and>
          CanonicalHeaderKey e content_length_header \<noteq> CanonicalHeaderKey e auth_header \<longrightarrow>
            Header req (CanonicalHeaderKey e auth_header) = [])"
proof -
  from makeRequest_sent_eq [OF assms(1)] assms(2)
  have "build_request e (api s) method requestURL payload headers = Inr req"
    by (auto split: sum.splits)
  then show ?thesis by (rule build_request_auth)
qed

theorem auth_header_attached_witness:
  "Signin (test_env 200 ''tok'') ''alice'' ''secret'' ''Default'' [] test_state = (None, signed_in) \<and>
   sent signed_in (snd (makeRequest (test_env 200 []) ''https://bi.example.com/api/2.0/sites/''
       GET None (NoTarget :: unit target) [] 1 1 [] signed_in)) = [auth_request] \<and>
   Header auth_request ''X-Tableau-Auth'' \<noteq> [] \<and>
   last (Header auth_request ''X-Tableau-Auth'') = ''tok'' \<and>
   sent test_state (snd (makeRequest (test_env 200 []) ''https://bi.example.com/api/2.0/sites/''
       GET None (NoTarget :: unit target) [(''Content-Type'', ''application/xml'')] 1 1 []
       test_state)) =
     [test_request\<lparr>Header := (\<lambda>k. [])(''Content-Type'' := [''application/xml''])\<rparr>] \<and>
   Header (test_request\<lparr>Header := (\<lambda>k. [])(''Content-Type'' := [''application/xml''])\<rparr>)
      ''X-Tableau-Auth'' = []"
proof -
  have h: "Signin (test_env 200 ''tok'') ''alice'' ''secret'' ''Default'' [] test_state
             = (None, signed_in)"
    using Signin_test by (simp add: signed_in_def prod_eq_iff)
  have m1: "makeRequest (test_env 200 []) ''https://bi.example.com/api/2.0/sites/''
       GET None (NoTarget :: unit target) [] 1 1 [] signed_in =
     (fst (makeRequest (test_env 200 []) ''https://bi.example.com/api/2.0/sites/''
       GET None (NoTarget :: unit target) [] 1 1 [] signed_in),
      snd (makeRequest (test_env 200 []) ''https://bi.example.com/api/2.0/sites/''
       GET None (NoTarget :: unit target) [] 1 1 [] signed_in))"
    by simp
  have m2: "makeRequest (test_env 200 []) ''https://bi.example.com/api/2.0/sites/''
       GET None (NoTarget :: unit target) [(''Content-Type'', ''application/xml'')] 1 1 []
       test_state =
     (fst (makeRequest (test_env 200 []) ''https://bi.example.com/api/2.0/sites/''
       GET None (NoTarget :: unit target) [(''Content-Type'', ''application/xml'')] 1 1 []
       test_state),
      snd (makeRequest (test_env 200 []) ''https://bi.example.com/api/2.0/sites/''
       GET None (NoTarget :: unit target) [(''Content-Type'', ''application/xml'')] 1 1 []
       test_state))"
    by simp
  have a: "AuthToken (api signed_in) = ''tok''" by (simp add: signed_in_api)
  have c: "CanonicalHeaderKey (test_env 200 []) = (\<lambda>k. k)" by (simp add: test_env_def)
  from auth_header_attached [OF m1 signed_in_next] a c
  have 1: "Header auth_request ''X-Tableau-Auth'' \<noteq> [] \<and>
           last (Header auth_request ''X-Tableau-Auth'') = ''tok''"
    by (simp add: auth_header_def)
  from auth_header_attached [OF m2 test_next] c
  have 2: "Header (test_request\<lparr>Header := (\<lambda>k. [])(''Content-Type'' := [''application/xml''])\<rparr>)
      ''X-Tableau-Auth'' = []"
    by (simp add: auth_header_def content_length_header_def test_defs)
  from h signed_in_next test_next 1 2 show ?thesis by blast
qed

subsection \<open>The site of the credentials\<close>

lemma Signin_request_eq:
  "Signin_request a username password contentURL uid =
     \<lparr>Signin_Request = \<lparr>Cred_Name = username, Password = password, Token = [],
        Cred_Site = Some \<lparr>Site_ID = [], ContentUrl =
          (if OmitDefaultSiteName a \<and> contentURL = DefaultSiteName a then [] else contentURL)\<rparr>,
        Impersonate = (if uid = [] then None else Some \<lparr>User_ID = uid\<rparr>)\<rparr>\<rparr>"
  by (simp add: Signin_request_def Let_def Credentials_zero_def Site_zero_def User_zero_def)

text \<open>
  C5. The request that \<^verbatim>\<open>Signin\<close> sends has as its body the serialisation of
  credentials whose site has the empty content URL when \<^verbatim>\<open>OmitDefaultSiteName\<close>
  is set and \<^verbatim>\<open>contentURL\<close> equals \<^verbatim>\<open>DefaultSiteName\<close>, and the argument
  \<^verbatim>\<open>contentURL\<close> unchanged in every other case.
\<close>

theorem Signin_site_selector:
  assumes "Signin e username password contentURL userIDToImpersonate s = (err, s')"
    and "sent s s' = [req]"
  shows "\<exists>signInXML.
           SigninRequest_XML e
             \<lparr>Signin_Request = \<lparr>Cred_Name = username, Password = password, Token = [],
                Cred_Site = Some \<lparr>Site_ID = [], ContentUrl =
                  (if OmitDefaultSiteName (api s) \<and> contentURL = DefaultSiteName (api s)
                   then [] else contentURL)\<rparr>,
                Impersonate = (if userIDToImpersonate = [] then None
                               else Some \<lparr>User_ID = userIDToImpersonate\<rparr>)\<rparr>\<rparr>
             = Inr signInXML \<and>
           Body req = (if signInXML = [] then None else Some signInXML)"
proof (cases "SigninRequest_XML e
                (Signin_request (api s) username password contentURL userIDToImpersonate)")
  case (Inl xerr)
  then have "Signin e username password contentURL userIDToImpersonate s = (Some xerr, s)"
    by (simp add: Signin_def Let_def)
  with assms show ?thesis by auto
next
  case (Inr signInXML)
  obtain merr t s1 where m: "makeRequest e
       (Server (api s) @ ''/api/'' @ Version (api s) @ ''/auth/signin'')
       POST (Some signInXML) (Ptr (xml_AuthResponse e) \<lparr>Auth_Credentials = Credentials_zero\<rparr>)
       [(content_type_header, application_xml_content_type)]
       (connectTimeOut e) (readWriteTimeout e) [] s = ((merr, t), s1)"
    by (metis surj_pair)
  note S = Signin_unfold [OF Inr m]
  from S assms(1) have "sent s s' = sent s s1" by (auto split: if_splits)
  with assms(2) makeRequest_sent_eq [OF m]
  have "build_request e (api s) POST
          (Server (api s) @ ''/api/'' @ Version (api s) @ ''/auth/signin'') (Some signInXML)
          [(content_type_header, application_xml_content_type)] = Inr req"
    by (auto split: sum.splits)
  from build_request_Body [OF this] Inr show ?thesis
    by (simp add: Signin_request_eq)
qed

theorem Signin_site_selector_witness:
  \<open>Signin (test_env 200 ''tok'') ''alice'' ''secret'' ''Default'' [] test_state = (None, signed_in) \<and>
   sent test_state signed_in = [hd (sent test_state signed_in)] \<and>
   Body (hd (sent test_state signed_in)) =
     Some ''<credentials name="alice"><site contentUrl=""/></credentials>'' \<and>
   sent test_state (snd (Signin (test_env 200 ''tok'') ''alice'' ''secret'' ''Sales'' [] test_state))
     = [hd (sent test_state
              (snd (Signin (test_env 200 ''tok'') ''alice'' ''secret'' ''Sales'' [] test_state)))] \<and>
   Body (hd (sent test_state
              (snd (Signin (test_env 200 ''tok'') ''alice'' ''secret'' ''Sales'' [] test_state)))) =
     Some ''<credentials name="alice"><site contentUrl="Sales"/></credentials>''\<close>
proof -
  have h: "Signin (test_env 200 ''tok'') ''alice'' ''secret'' ''Default'' [] test_state
             = (None, signed_in)"
    using Signin_test by (simp add: signed_in_def prod_eq_iff)
  have l: "length (sent test_state signed_in) = 1"
    using signed_in_sent by (metis length_map length_Cons list.size(3) One_nat_def)
  then have s: "sent test_state signed_in = [hd (sent test_state signed_in)]"
    by (cases "sent test_state signed_in") auto
  from Signin_site_selector [OF h s]
  have 1: \<open>Body (hd (sent test_state signed_in)) =
     Some ''<credentials name="alice"><site contentUrl=""/></credentials>''\<close>
    by (simp add: test_defs)
  let ?s2 = "snd (Signin (test_env 200 ''tok'') ''alice'' ''secret'' ''Sales'' [] test_state)"
  have h2: "Signin (test_env 200 ''tok'') ''alice'' ''secret'' ''Sales'' [] test_state
              = (fst (Signin (test_env 200 ''tok'') ''alice'' ''secret'' ''Sales'' [] test_state), ?s2)"
    by simp
  have "length (sent test_state ?s2) = 1"
    by (simp add: Signin_def Signin_request_def run_defs test_defs Credentials_zero_def
        Site_zero_def)
  then have s2: "sent test_state ?s2 = [hd (sent test_state ?s2)]"
    by (cases "sent test_state ?s2") auto
  from Signin_site_selector [OF h2 s2]
  have 2: \<open>Body (hd (sent test_state ?s2)) =
     Some ''<credentials name="alice"><site contentUrl="Sales"/></credentials>''\<close>
    by (simp add: test_defs)
  from h s 1 s2 2 show ?thesis by blast
qed

subsection \<open>Looking a project up by name\<close>

lemma project_named_first:
  "(\<forall>p \<in> set pre. Project_Name p \<noteq> name) \<Longrightarrow> Project_Name project = name \<Longrightarrow>
   project_named name (pre @ project # post) = (project, None)"
  by (induction pre) auto

lemma project_named_absent:
  "(\<forall>p \<in> set projects. Project_Name p \<noteq> name) \<Longrightarrow>
   project_named name projects =
     (Project_zero,
      Some (Errorf (''Project Named '' @ [CHR 0x27] @ name @ [CHR 0x27] @ '' Not Found'')))"
  by (induction projects) auto

text \<open>
  C7. When \<^verbatim>\<open>QueryProjects\<close> succeeds, \<^verbatim>\<open>GetProjectByName\<close> returns the first
  project of the list whose name is the given one, with no error; when no project of the
  list has the name, it returns the zero project and the error whose message is
  \<^verbatim>\<open>Project Named '<name>' Not Found\<close>, with the name as given.
\<close>

theorem GetProjectByName_first:
  assumes "QueryProjects e siteID s = ((projects, None), s')"
  shows "(\<forall>pre project post.
            projects = pre @ project # post \<and> (\<forall>p \<in> set pre. Project_Name p \<noteq> name) \<and>
            Project_Name project = name \<longrightarrow>
              GetProjectByName e siteID name s = ((project, None), s')) \<and>
         ((\<forall>p \<in> set projects. Project_Name p \<noteq> name) \<longrightarrow>
            GetProjectByName e siteID name s =
              ((Project_zero,
                Some (Errorf (''Project Named '' @ [CHR 0x27] @ name @ [CHR 0x27]
                                @ '' Not Found''))), s'))"
  using assms project_named_absent [of projects name]
  by (auto simp: GetProjectByName_def project_named_first simp del: project_named.simps)

theorem GetProjectByName_first_witness:
  "QueryProjects (test_env 200 ''Finance'') ''siteX'' test_state =
     ((test_projects, None), snd (QueryProjects (test_env 200 ''Finance'') ''siteX'' test_state)) \<and>
   GetProjectByName (test_env 200 ''Finance'') ''siteX'' ''Finance'' test_state =
     ((\<lparr>Project_ID = ''p1'', Project_Name = ''Finance''\<rparr>, None),
      snd (QueryProjects (test_env 200 ''Finance'') ''siteX'' test_state)) \<and>
   GetProjectByName (test_env 200 ''Finance'') ''siteX'' ''Audit'' test_state =
     ((Project_zero, Some (Errorf (''Project Named '' @ [CHR 0x27] @ ''Audit'' @ [CHR 0x27]
                                @ '' Not Found''))),
      snd (QueryProjects (test_env 200 ''Finance'') ''siteX'' test_state))"
proof -
  let ?s' = "snd (QueryProjects (test_env 200 ''Finance'') ''siteX'' test_state)"
  have q: "QueryProjects (test_env 200 ''Finance'') ''siteX'' test_state =
     ((test_projects, None), ?s')"
    using QueryProjects_test by (simp add: prod_eq_iff)
  have p: "test_projects = [\<lparr>Project_ID = ''p0'', Project_Name = ''Default''\<rparr>]
             @ \<lparr>Project_ID = ''p1'', Project_Name = ''Finance''\<rparr>
             # [\<lparr>Project_ID = ''p2'', Project_Name = ''Finance''\<rparr>] \<and>
           (\<forall>p \<in> set [\<lparr>Project_ID = ''p0'', Project_Name = ''Default''\<rparr>].
               Project_Name p \<noteq> ''Finance'') \<and>
           Project_Name \<lparr>Project_ID = ''p1'', Project_Name = ''Finance''\<rparr> = ''Finance''"
    by (simp add: test_projects_def)
  have a: "\<forall>p \<in> set test_projects. Project_Name p \<noteq> ''Audit''"
    by (simp add: test_projects_def)
  from GetProjectByName_first [OF q, of "''Finance''"] p
  have 1: "GetProjectByName (test_env 200 ''Finance'') ''siteX'' ''Finance'' test_state =
     ((\<lparr>Project_ID = ''p1'', Project_Name = ''Finance''\<rparr>, None), ?s')"
    by blast
  from GetProjectByName_first [OF q, of "''Audit''"] a
  have 2: "GetProjectByName (test_env 200 ''Finance'') ''siteX'' ''Audit'' test_state =
     ((Project_zero, Some (Errorf (''Project Named '' @ [CHR 0x27] @ ''Audit'' @ [CHR 0x27]
                                @ '' Not Found''))), ?s')"
    by blast
  from q 1 2 show ?thesis by blast
qed

subsection \<open>The multipart body of a publish request\<close>

lemma publishDatasource_sent:
  assumes "DatasourceCreateRequest_XML e \<lparr>DatasourceCreate_Request = tdsMetadata\<rparr>
             = Inr xmlRepresentation"
  shows "sent s (snd (publishDatasource e siteID tdsMetadata datasource datasourceType overwrite s)) =
    (case build_request e (api s) POST
       (Server (api s) @ ''/api/'' @ Version (api s) @ ''/sites/'' @ siteID
                  @ ''/datasources?datasourceType='' @ datasourceType
                  @ ''&overwrite='' @ fmt_bool overwrite)
       (Some (''--'' @ Boundary (api s) @ CRLF
     @ ''Content-Disposition: name='' @ [CHR 0x22] @ ''request_payload'' @ [CHR 0x22] @ CRLF
     @ ''Content-Type: text/xml'' @ CRLF
     @ CRLF
     @ xmlRepresentation
     @ CRLF @ ''--'' @ Boundary (api s) @ CRLF
     @ ''Content-Disposition: name='' @ [CHR 0x22] @ ''tableau_datasource'' @ [CHR 0x22]
     @ ''; filename='' @ [CHR 0x22] @ Datasource_Name tdsMetadata @ ''.tds'' @ [CHR 0x22] @ CRLF
     @ ''Content-Type: application/octet-stream'' @ CRLF
     @ CRLF
     @ datasource
     @ CRLF @ ''--'' @ Boundary (api s) @ ''--'' @ CRLF))
       [(content_type_header, ''multipart/mixed; boundary='' @ Boundary (api s))] of
     Inl err \<Rightarrow> [] | Inr req \<Rightarrow> [req])"
  by (simp add: publishDatasource_def Let_def assms split_beta makeRequest_sent)

lemma multipart_B1_Sales_ends:
  "prefix ''--B1'' (multipart_B1_Sales x) \<and> suffix (''--B1--'' @ CRLF) (multipart_B1_Sales x)"
proof
  show "prefix ''--B1'' (multipart_B1_Sales x)"
    unfolding multipart_B1_Sales_def by (rule prefixI [OF refl])
  show "suffix (''--B1--'' @ CRLF) (multipart_B1_Sales x)"
    by (simp add: multipart_B1_Sales_def suffix_def)
qed

lemma PublishTDS_test_sent:
  \<open>map Body (sent test_state
      (snd (PublishTDS (test_env 201 published) ''siteX'' sales ''<rows/>'' False test_state)))
   = [Some (multipart_B1_Sales ''<datasource name="Sales"/>'')]\<close>
  by (simp add: PublishTDS_def publishDatasource_def run_defs test_defs sales_def
      multipart_B1_Sales_def CRLF_def fmt_bool_def)

text \<open>
  C6, as the code has it. With the boundary \<open>B1\<close>, the metadata name \<open>Sales\<close>
  and the content \<^verbatim>\<open><rows/>\<close>, the request that \<^verbatim>\<open>publishDatasource\<close> sends
  has the body \<open>multipart_B1_Sales\<close> of the serialised metadata: it begins with
  \<^verbatim>\<open>--B1\<close>, has the \<^verbatim>\<open>request_payload\<close> part holding the metadata XML and the
  \<^verbatim>\<open>tableau_datasource\<close> part with the file name \<^verbatim>\<open>Sales.tds\<close> and the body
  \<^verbatim>\<open><rows/>\<close>, and ends with \<^verbatim>\<open>--B1--\<close> followed by CR LF.
\<close>

theorem publish_multipart_body:
  assumes "Boundary (api s) = ''B1''" and "Datasource_Name tdsMetadata = ''Sales''"
    and "publishDatasource e siteID tdsMetadata ''<rows/>'' datasourceType overwrite s = (r, s')"
    and "sent s s' = [req]"
  shows "\<exists>xmlRepresentation.
           DatasourceCreateRequest_XML e \<lparr>DatasourceCreate_Request = tdsMetadata\<rparr>
             = Inr xmlRepresentation \<and>
           Body req = Some (multipart_B1_Sales xmlRepresentation) \<and>
           prefix ''--B1'' (multipart_B1_Sales xmlRepresentation) \<and>
           suffix (''--B1--'' @ CRLF) (multipart_B1_Sales xmlRepresentation)"
proof (cases "DatasourceCreateRequest_XML e \<lparr>DatasourceCreate_Request = tdsMetadata\<rparr>")
  case (Inl err)
  then have "snd (publishDatasource e siteID tdsMetadata ''<rows/>'' datasourceType overwrite s) = s"
    by (simp add: publishDatasource_def Let_def)
  with assms(3,4) show ?thesis by simp
next
  case (Inr xmlRepresentation)
  from publishDatasource_sent [OF Inr, of s siteID "''<rows/>''" datasourceType overwrite] assms(3,4)
  obtain u p hs where "build_request e (api s) POST u (Some p) hs = Inr req"
    and "p = ''--'' @ Boundary (api s) @ CRLF
     @ ''Content-Disposition: name='' @ [CHR 0x22] @ ''request_payload'' @ [CHR 0x22] @ CRLF
     @ ''Content-Type: text/xml'' @ CRLF
     @ CRLF
     @ xmlRepresentation
     @ CRLF @ ''--'' @ Boundary (api s) @ CRLF
     @ ''Content-Disposition: name='' @ [CHR 0x22] @ ''tableau_datasource'' @ [CHR 0x22]
     @ ''; filename='' @ [CHR 0x22] @ Datasource_Name tdsMetadata @ ''.tds'' @ [CHR 0x22] @ CRLF
     @ ''Content-Type: application/octet-stream'' @ CRLF
     @ CRLF
     @ ''<rows/>''
     @ CRLF @ ''--'' @ Boundary (api s) @ ''--'' @ CRLF"
    by (auto split: sum.splits)
  from build_request_Body [OF this(1)] this(2) assms(1,2)
  have "Body req = Some (multipart_B1_Sales xmlRepresentation)"
    by (simp add: multipart_B1_Sales_def)
  with Inr multipart_B1_Sales_ends [of xmlRepresentation] show ?thesis by simp
qed

theorem publish_multipart_body_witness:
  \<open>Boundary (api test_state) = ''B1'' \<and> Datasource_Name sales = ''Sales'' \<and>
   sent test_state
     (snd (publishDatasource (test_env 201 published) ''siteX'' sales ''<rows/>'' ''tds'' False
             test_state))
     = [hd (sent test_state
         (snd (publishDatasource (test_env 201 published) ''siteX'' sales ''<rows/>'' ''tds''
                 False test_state)))] \<and>
   Body (hd (sent test_state
         (snd (publishDatasource (test_env 201 published) ''siteX'' sales ''<rows/>'' ''tds''
                 False test_state))))
     = Some (multipart_B1_Sales ''<datasource name="Sales"/>'')\<close>
proof -
  let ?p = "publishDatasource (test_env 201 published) ''siteX'' sales ''<rows/>'' ''tds'' False
              test_state"
  have b: "Boundary (api test_state) = ''B1''" by (simp add: test_defs)
  have n: "Datasource_Name sales = ''Sales''" by (simp add: sales_def)
  have h: "?p = (fst ?p, snd ?p)" by simp
  have "length (sent test_state (snd ?p)) = 1"
    using PublishTDS_test_sent
    by (metis PublishTDS_def length_map length_Cons list.size(3) One_nat_def)
  then have s: "sent test_state (snd ?p) = [hd (sent test_state (snd ?p))]"
    by (cases "sent test_state (snd ?p)") auto
  from publish_multipart_body [OF b n h s]
  have \<open>Body (hd (sent test_state (snd ?p)))
          = Some (multipart_B1_Sales ''<datasource name="Sales"/>'')\<close>
    by (auto simp: test_env_def sales_def)
  with b n s show ?thesis by blast
qed

text \<open>
  C6 as stated fails in its last part: on the test server, the body of the publish
  request for the boundary \<open>B1\<close>, the name \<open>Sales\<close> and the content
  \<^verbatim>\<open><rows/>\<close> does not end with \<^verbatim>\<open>--B1--\<close>; its last bytes are the CR LF
  that line 297 writes after the closing delimiter.
\<close>

theorem publish_body_end_counterexample:
  \<open>map Body (sent test_state
      (snd (PublishTDS (test_env 201 published) ''siteX'' sales ''<rows/>'' False test_state)))
     = [Some (multipart_B1_Sales ''<datasource name="Sales"/>'')] \<and>
   \<not> suffix ''--B1--'' (multipart_B1_Sales ''<datasource name="Sales"/>'')\<close>
proof -
  have \<open>\<not> suffix ''--B1--'' (multipart_B1_Sales ''<datasource name="Sales"/>'')\<close>
    by (simp add: multipart_B1_Sales_def CRLF_def suffix_to_prefix)
  with PublishTDS_test_sent show ?thesis by simp
qed

subsection \<open>What a publish returns\<close>

text \<open>
  The result \<^verbatim>\<open>retval\<close> of \<^verbatim>\<open>publishDatasource\<close> is \<^verbatim>\<open>nil\<close> on every
  path: \<^verbatim>\<open>makeRequest\<close> is given the \<^verbatim>\<open>nil\<close> pointer by value and has nothing
  to decode into.
\<close>

lemma publishDatasource_nil:
  "fst (fst (publishDatasource e siteID tdsMetadata datasource datasourceType overwrite s)) = None"
  by (simp add: publishDatasource_def Let_def split: sum.splits prod.splits)

text \<open>
  C8 asks that a successful \<^verbatim>\<open>PublishTDS\<close> returns the decoded datasource. It does
  not: on the test server, which answers 201 with a datasource in the body, the call
  returns no error and a \<^verbatim>\<open>nil\<close> datasource.
\<close>

theorem PublishTDS_returns_nil:
  "fst (PublishTDS (test_env 201 published) ''siteX'' sales ''<rows/>'' False test_state)
     = (None, None)"
  by (simp add: PublishTDS_def publishDatasource_def run_defs test_defs sales_def published_def)

subsection \<open>The URL of each operation\<close>

lemma makeRequest_targets:
  "targets e s (snd (makeRequest e u m p result hs ct rw f s)) u"
  by (auto simp: targets_def makeRequest_sent build_request_URL split: sum.splits)

lemma targets_ServerInfo:
  "targets e s (snd (ServerInfo e s)) (Server (api s) @ ''/api/2.4/serverinfo'')"
  by (simp add: ServerInfo_def Let_def split_beta makeRequest_targets)

lemma ServerInfo_sent:
  "sent s (snd (ServerInfo e s)) =
     (case build_request e (api s) GET (Server (api s) @ ''/api/2.4/serverinfo'') None [] of
        Inl err \<Rightarrow> [] | Inr req \<Rightarrow> [req])"
  by (simp add: ServerInfo_def Let_def split_beta makeRequest_sent)

lemma ServerInfo_Version:
  "sent (s\<lparr>api := (api s)\<lparr>Version := v\<rparr>\<rparr>) (snd (ServerInfo e (s\<lparr>api := (api s)\<lparr>Version := v\<rparr>\<rparr>)))
     = sent s (snd (ServerInfo e s))"
  by (simp add: ServerInfo_sent)

lemma ServerInfo_sends:
  "NewRequest_err e (strings_TrimSpace e GET)
      (strings_TrimSpace e (Server (api s) @ ''/api/2.4/serverinfo'')) = None \<Longrightarrow>
   map URL (sent s (snd (ServerInfo e s))) =
     [strings_TrimSpace e (Server (api s) @ ''/api/2.4/serverinfo'')]"
  using build_request_ok [of e GET "Server (api s) @ ''/api/2.4/serverinfo''" "api s" None "[]"]
  by (auto simp: ServerInfo_sent build_request_URL)

lemma build_request_accepted:
  "build_request e a m u p hs = Inr req \<Longrightarrow>
   NewRequest_err e (strings_TrimSpace e m) (strings_TrimSpace e u) = None"
  by (auto simp: build_request_def new_request_def http_NewRequest_def
      split: sum.splits option.splits if_splits)

lemma makeRequest_sends_to:
  "sends_to e s (snd (makeRequest e u m p result hs ct rw f s)) m u"
proof (cases "build_request e (api s) m u p hs")
  case (Inl err)
  with build_request_ok [of e m u "api s" p hs]
  have "NewRequest_err e (strings_TrimSpace e m) (strings_TrimSpace e u) \<noteq> None"
    by auto
  with Inl show ?thesis by (simp add: sends_to_def makeRequest_sent)
next
  case (Inr req)
  from build_request_accepted [OF Inr] build_request_URL [OF Inr] Inr
  show ?thesis by (simp add: sends_to_def makeRequest_sent)
qed

lemma sends_to_api_update [simp]:
  "sends_to e s (s'\<lparr>api := a\<rparr>) m u = sends_to e s s' m u"
  by (simp add: sends_to_def)

lemma sends_to_querySite: "sends_to e s (snd (querySite e url s)) GET url"
  by (simp add: querySite_def Let_def split_beta makeRequest_sends_to)

lemma sends_to_querySiteByKey:
  "sends_to e s (snd (querySiteByKey e key val includeStorage s)) GET
     (Server (api s) @ ''/api/'' @ Version (api s) @ ''/sites/'' @ val @ ''?key='' @ key
        @ (if includeStorage then ''&includeStorage=true'' else []))"
  by (simp add: querySiteByKey_def Let_def fmt_bool_def sends_to_querySite)

lemma sends_to_delete: "sends_to e s (snd (delete e url s)) DELETE url"
  by (simp add: delete_def Let_def split_beta makeRequest_sends_to)

lemma sends_to_ServerInfo:
  "sends_to e s (snd (ServerInfo e s)) GET (Server (api s) @ ''/api/2.4/serverinfo'')"
  by (simp add: ServerInfo_def Let_def split_beta makeRequest_sends_to)

lemma sends_to_Signin:
  "(case SigninRequest_XML e
           (Signin_request (api s) username password contentURL userIDToImpersonate) of
      Inl err \<Rightarrow>
        sent s (snd (Signin e username password contentURL userIDToImpersonate s)) = []
    | Inr signInXML \<Rightarrow>
        sends_to e s (snd (Signin e username password contentURL userIDToImpersonate s)) POST
          (Server (api s) @ ''/api/'' @ Version (api s) @ ''/auth/signin''))"
  by (simp add: Signin_def Let_def split_beta makeRequest_sends_to split: sum.splits)

lemma sends_to_CreateProject:
  "(case CreateProjectRequest_XML e \<lparr>CreateProject_Request = project\<rparr> of
      Inl err \<Rightarrow> sent s (snd (CreateProject e siteID project s)) = []
    | Inr xmlRep \<Rightarrow>
        sends_to e s (snd (CreateProject e siteID project s)) POST
          (Server (api s) @ ''/api/'' @ Version (api s) @ ''/sites/'' @ siteID @ ''/projects''))"
  by (simp add: CreateProject_def Let_def split_beta makeRequest_sends_to split: sum.splits)

lemma sends_to_PublishTDS:
  "(case DatasourceCreateRequest_XML e \<lparr>DatasourceCreate_Request = tdsMetadata\<rparr> of
      Inl err \<Rightarrow> sent s (snd (PublishTDS e siteID tdsMetadata fullTds overwrite s)) = []
    | Inr xmlRepresentation \<Rightarrow>
        sends_to e s (snd (PublishTDS e siteID tdsMetadata fullTds overwrite s)) POST
          (Server (api s) @ ''/api/'' @ Version (api s) @ ''/sites/'' @ siteID
             @ ''/datasources?datasourceType=tds&overwrite='' @ fmt_bool overwrite))"
  by (simp add: PublishTDS_def publishDatasource_def Let_def split_beta makeRequest_sends_to
      split: sum.splits)

lemma sends_to_Signout:
  "sends_to e s (snd (Signout e s)) POST
     (Server (api s) @ ''/api/'' @ Version (api s) @ ''/auth/signout'')"
  by (simp add: Signout_def Let_def split_beta makeRequest_sends_to)

lemma sends_to_QuerySites:
  "sends_to e s (snd (QuerySites e s)) GET
     (Server (api s) @ ''/api/'' @ Version (api s) @ ''/sites/'')"
  by (simp add: QuerySites_def Let_def split_beta makeRequest_sends_to)

lemma sends_to_QuerySite:
  "sends_to e s (snd (QuerySite e siteID includeStorage s)) GET
     (Server (api s) @ ''/api/'' @ Version (api s) @ ''/sites/'' @ siteID
        @ (if includeStorage then ''?includeStorage=true'' else []))"
  by (simp add: QuerySite_def Let_def fmt_bool_def sends_to_querySite)

lemma sends_to_QuerySiteByName:
  "sends_to e s (snd (QuerySiteByName e name includeStorage s)) GET
     (Server (api s) @ ''/api/'' @ Version (api s) @ ''/sites/'' @ name @ ''?key=name''
        @ (if includeStorage then ''&includeStorage=true'' else []))"
  using sends_to_querySiteByKey [of e s "''name''" name includeStorage]
  by (simp add: QuerySiteByName_def)

lemma sends_to_QuerySiteByContentURL:
  "sends_to e s (snd (QuerySiteByContentURL e contentURL includeStorage s)) GET
     (Server (api s) @ ''/api/'' @ Version (api s) @ ''/sites/'' @ contentURL
        @ ''?key=contentURL'' @ (if includeStorage then ''&includeStorage=true'' else []))"
  using sends_to_querySiteByKey [of e s "''contentURL''" contentURL includeStorage]
  by (simp add: QuerySiteByContentURL_def)

lemma sends_to_QueryUserOnSite:
  "sends_to e s (snd (QueryUserOnSite e siteID userID s)) GET
     (Server (api s) @ ''/api/'' @ Version (api s) @ ''/sites/'' @ siteID @ ''/users/''
        @ userID)"
  by (simp add: QueryUserOnSite_def Let_def split_beta makeRequest_sends_to)

lemma sends_to_QueryProjects:
  "sends_to e s (snd (QueryProjects e siteID s)) GET
     (Server (api s) @ ''/api/'' @ Version (api s) @ ''/sites/'' @ siteID @ ''/projects'')"
  by (simp add: QueryProjects_def Let_def split_beta makeRequest_sends_to)

lemma sends_to_QueryViews:
  "sends_to e s (snd (QueryViews e siteID s)) GET
     (Server (api s) @ ''/api/'' @ Version (api s) @ ''/sites/'' @ siteID @ ''/views'')"
  by (simp add: QueryViews_def Let_def split_beta makeRequest_sends_to)

lemma sends_to_QueryWorkbookViews:
  "sends_to e s (snd (QueryWorkbookViews e siteID workbookID vals s)) GET
     (Server (api s) @ ''/api/'' @ Version (api s) @ ''/sites/'' @ siteID @ ''/workbooks/''
        @ workbookID @ ''/views''
        @ (if Values_Encode e vals \<noteq> [] then ''?'' @ Values_Encode e vals else []))"
  by (simp add: QueryWorkbookViews_def Let_def split_beta makeRequest_sends_to)

lemma sends_to_QueryViewData:
  "sends_to e s (snd (QueryViewData e siteID viewID s)) GET
     (Server (api s) @ ''/api/'' @ Version (api s) @ ''/sites/'' @ siteID @ ''/views/''
        @ viewID @ ''/data'')"
  by (simp add: QueryViewData_def Let_def split_beta makeRequest_sends_to)

lemma sends_to_QueryWorkbooks:
  "sends_to e s (snd (QueryWorkbooks e siteID vals s)) GET
     (Server (api s) @ ''/api/'' @ Version (api s) @ ''/sites/'' @ siteID @ ''/workbooks''
        @ (if Values_Encode e vals \<noteq> [] then ''?'' @ Values_Encode e vals else []))"
  by (simp add: QueryWorkbooks_def Let_def split_beta makeRequest_sends_to)

lemma sends_to_GetProjectByName:
  "sends_to e s (snd (GetProjectByName e siteID name s)) GET
     (Server (api s) @ ''/api/'' @ Version (api s) @ ''/sites/'' @ siteID @ ''/projects'')"
  using sends_to_QueryProjects [of e s siteID]
  by (simp add: GetProjectByName_def split_beta)

lemma sends_to_GetProjectByID:
  "sends_to e s (snd (GetProjectByID e siteID ID s)) GET
     (Server (api s) @ ''/api/'' @ Version (api s) @ ''/sites/'' @ siteID @ ''/projects'')"
  using sends_to_QueryProjects [of e s siteID]
  by (simp add: GetProjectByID_def split_beta)

lemma sends_to_QueryDatasources:
  "sends_to e s (snd (QueryDatasources e siteID s)) GET
     (Server (api s) @ ''/api/'' @ Version (api s) @ ''/sites/'' @ siteID @ ''/datasources'')"
  by (simp add: QueryDatasources_def Let_def split_beta makeRequest_sends_to)

lemma sends_to_GetSiteID:
  "sends_to e s (snd (GetSiteID e siteName s)) GET
     (Server (api s) @ ''/api/'' @ Version (api s) @ ''/sites/'' @ siteName @ ''?key=name'')"
  using sends_to_QuerySiteByName [of e s siteName False]
  by (simp add: GetSiteID_def split_beta)

lemma sends_to_DeleteDatasource:
  "sends_to e s (snd (DeleteDatasource e siteID datasourceID s)) DELETE
     (Server (api s) @ ''/api/'' @ Version (api s) @ ''/sites/'' @ siteID @ ''/datasources/''
        @ datasourceID)"
  by (simp add: DeleteDatasource_def sends_to_delete)

lemma sends_to_DeleteProject:
  "sends_to e s (snd (DeleteProject e siteID projectID s)) DELETE
     (Server (api s) @ ''/api/'' @ Version (api s) @ ''/sites/'' @ siteID @ ''/projects/''
        @ projectID)"
  by (simp add: DeleteProject_def sends_to_delete)

lemma sends_to_DeleteSite:
  "sends_to e s (snd (DeleteSite e siteID s)) DELETE
     (Server (api s) @ ''/api/'' @ Version (api s) @ ''/sites/'' @ siteID)"
  by (simp add: DeleteSite_def sends_to_delete)

lemma sends_to_DeleteSiteByName:
  "sends_to e s (snd (DeleteSiteByName e name s)) DELETE
     (Server (api s) @ ''/api/'' @ Version (api s) @ ''/sites/'' @ name @ ''?key=name'')"
  by (simp add: DeleteSiteByName_def deleteSiteByKey_def sends_to_delete)

lemma sends_to_DeleteSiteByContentURL:
  "sends_to e s (snd (DeleteSiteByContentURL e contentURL s)) DELETE
     (Server (api s) @ ''/api/'' @ Version (api s) @ ''/sites/'' @ contentURL
        @ ''?key=contentUrl'')"
  by (simp add: DeleteSiteByContentURL_def deleteSiteByKey_def sends_to_delete)

text \<open>
  C10. \<^verbatim>\<open>ServerInfo\<close> sends at most one request, to the server's base URL followed
  by \<^verbatim>\<open>/api/2.4/serverinfo\<close> (trimmed, as \<^verbatim>\<open>makeRequest\<close> trims every URL); it
  sends it whenever \<^verbatim>\<open>http.NewRequest\<close> accepts the method and the URL; and what it
  sends is the same whatever the session's \<^verbatim>\<open>Version\<close> is. Every other exported
  operation sends exactly one request, to a URL that has the session's
  \<^verbatim>\<open>Version\<close> after \<^verbatim>\<open>/api/\<close>, whenever \<^verbatim>\<open>http.NewRequest\<close> accepts
  the method and the URL, and none when it refuses them; the three operations that
  serialise a payload first send nothing when the serialiser fails.
\<close>

theorem ServerInfo_literal_version:
  "targets e s (snd (ServerInfo e s)) (Server (api s) @ ''/api/2.4/serverinfo'') \<and>
   (NewRequest_err e (strings_TrimSpace e GET)
       (strings_TrimSpace e (Server (api s) @ ''/api/2.4/serverinfo'')) = None \<longrightarrow>
    map URL (sent s (snd (ServerInfo e s))) =
      [strings_TrimSpace e (Server (api s) @ ''/api/2.4/serverinfo'')]) \<and>
   sent (s\<lparr>api := (api s)\<lparr>Version := v\<rparr>\<rparr>)
        (snd (ServerInfo e (s\<lparr>api := (api s)\<lparr>Version := v\<rparr>\<rparr>)))
     = sent s (snd (ServerInfo e s)) \<and>
   sends_to e s (snd (ServerInfo e s)) GET (Server (api s) @ ''/api/2.4/serverinfo'') \<and>
   (case SigninRequest_XML e
           (Signin_request (api s) username password contentURL userIDToImpersonate) of
      Inl err \<Rightarrow>
        sent s (snd (Signin e username password contentURL userIDToImpersonate s)) = []
    | Inr signInXML \<Rightarrow>
        sends_to e s (snd (Signin e username password contentURL userIDToImpersonate s)) POST
          (Server (api s) @ ''/api/'' @ Version (api s) @ ''/auth/signin'')) \<and>
   sends_to e s (snd (Signout e s)) POST
     (Server (api s) @ ''/api/'' @ Version (api s) @ ''/auth/signout'') \<and>
   sends_to e s (snd (QuerySites e s)) GET
     (Server (api s) @ ''/api/'' @ Version (api s) @ ''/sites/'') \<and>
   sends_to e s (snd (QuerySite e siteID includeStorage s)) GET
     (Server (api s) @ ''/api/'' @ Version (api s) @ ''/sites/'' @ siteID
        @ (if includeStorage then ''?includeStorage=true'' else [])) \<and>
   sends_to e s (snd (QuerySiteByName e name includeStorage s)) GET
     (Server (api s) @ ''/api/'' @ Version (api s) @ ''/sites/'' @ name @ ''?key=name''
        @ (if includeStorage then ''&includeStorage=true'' else [])) \<and>
   sends_to e s (snd (QuerySiteByContentURL e contentURL includeStorage s)) GET
     (Server (api s) @ ''/api/'' @ Version (api s) @ ''/sites/'' @ contentURL
        @ ''?key=contentURL'' @ (if includeStorage then ''&includeStorage=true'' else [])) \<and>
   sends_to e s (snd (QueryUserOnSite e siteID userID s)) GET
     (Server (api s) @ ''/api/'' @ Version (api s) @ ''/sites/'' @ siteID @ ''/users/''
        @ userID) \<and>
   sends_to e s (snd (QueryProjects e siteID s)) GET
     (Server (api s) @ ''/api/'' @ Version (api s) @ ''/sites/'' @ siteID @ ''/projects'') \<and>
   sends_to e s (snd (QueryViews e siteID s)) GET
     (Server (api s) @ ''/api/'' @ Version (api s) @ ''/sites/'' @ siteID @ ''/views'') \<and>
   sends_to e s (snd (QueryWorkbookViews e siteID workbookID vals s)) GET
     (Server (api s) @ ''/api/'' @ Version (api s) @ ''/sites/'' @ siteID @ ''/workbooks/''
        @ workbookID @ ''/views''
        @ (if Values_Encode e vals \<noteq> [] then ''?'' @ Values_Encode e vals else [])) \<and>
   sends_to e s (snd (QueryViewData e siteID viewID s)) GET
     (Server (api s) @ ''/api/'' @ Version (api s) @ ''/sites/'' @ siteID @ ''/views/''
        @ viewID @ ''/data'') \<and>
   sends_to e s (snd (QueryWorkbooks e siteID vals s)) GET
     (Server (api s) @ ''/api/'' @ Version (api s) @ ''/sites/'' @ siteID @ ''/workbooks''
        @ (if Values_Encode e vals \<noteq> [] then ''?'' @ Values_Encode e vals else [])) \<and>
   sends_to e s (snd (GetProjectByName e siteID name s)) GET
     (Server (api s) @ ''/api/'' @ Version (api s) @ ''/sites/'' @ siteID @ ''/projects'') \<and>
   sends_to e s (snd (GetProjectByID e siteID ID s)) GET
     (Server (api s) @ ''/api/'' @ Version (api s) @ ''/sites/'' @ siteID @ ''/projects'') \<and>
   sends_to e s (snd (QueryDatasources e siteID s)) GET
     (Server (api s) @ ''/api/'' @ Version (api s) @ ''/sites/'' @ siteID @ ''/datasources'') \<and>
   sends_to e s (snd (GetSiteID e siteName s)) GET
     (Server (api s) @ ''/api/'' @ Version (api s) @ ''/sites/'' @ siteName @ ''?key=name'') \<and>
   (case CreateProjectRequest_XML e \<lparr>CreateProject_Request = project\<rparr> of
      Inl err \<Rightarrow> sent s (snd (CreateProject e siteID project s)) = []
    | Inr xmlRep \<Rightarrow>
        sends_to e s (snd (CreateProject e siteID project s)) POST
          (Server (api s) @ ''/api/'' @ Version (api s) @ ''/sites/'' @ siteID @ ''/projects'')) \<and>
   (case DatasourceCreateRequest_XML e \<lparr>DatasourceCreate_Request = tdsMetadata\<rparr> of
      Inl err \<Rightarrow> sent s (snd (PublishTDS e siteID tdsMetadata fullTds overwrite s)) = []
    | Inr xmlRepresentation \<Rightarrow>
        sends_to e s (snd (PublishTDS e siteID tdsMetadata fullTds overwrite s)) POST
          (Server (api s) @ ''/api/'' @ Version (api s) @ ''/sites/'' @ siteID
             @ ''/datasources?datasourceType=tds&overwrite='' @ fmt_bool overwrite)) \<and>
   sends_to e s (snd (DeleteDatasource e siteID datasourceID s)) DELETE
     (Server (api s) @ ''/api/'' @ Version (api s) @ ''/sites/'' @ siteID @ ''/datasources/''
        @ datasourceID) \<and>
   sends_to e s (snd (DeleteProject e siteID projectID s)) DELETE
     (Server (api s) @ ''/api/'' @ Version (api s) @ ''/sites/'' @ siteID @ ''/projects/''
        @ projectID) \<and>
   sends_to e s (snd (DeleteSite e siteID s)) DELETE
     (Server (api s) @ ''/api/'' @ Version (api s) @ ''/sites/'' @ siteID) \<and>
   sends_to e s (snd (DeleteSiteByName e name s)) DELETE
     (Server (api s) @ ''/api/'' @ Version (api s) @ ''/sites/'' @ name @ ''?key=name'') \<and>
   sends_to e s (snd (DeleteSiteByContentURL e contentURL s)) DELETE
     (Server (api s) @ ''/api/'' @ Version (api s) @ ''/sites/'' @ contentURL
        @ ''?key=contentUrl'')"
  by (intro conjI impI ServerInfo_sends ServerInfo_Version targets_ServerInfo
      sends_to_ServerInfo
      sends_to_Signin sends_to_Signout sends_to_QuerySites sends_to_QuerySite
      sends_to_QuerySiteByName sends_to_QuerySiteByContentURL sends_to_QueryUserOnSite
      sends_to_QueryProjects sends_to_QueryViews sends_to_QueryWorkbookViews
      sends_to_QueryViewData sends_to_QueryWorkbooks sends_to_GetProjectByName
      sends_to_GetProjectByID sends_to_QueryDatasources sends_to_GetSiteID
      sends_to_CreateProject sends_to_PublishTDS sends_to_DeleteDatasource
      sends_to_DeleteProject sends_to_DeleteSite sends_to_DeleteSiteByName
      sends_to_DeleteSiteByContentURL)

theorem ServerInfo_literal_version_witness:
  "Version (api test_state) = ''2.0'' \<and>
   NewRequest_err (test_env 200 []) (strings_TrimSpace (test_env 200 []) GET)
       (strings_TrimSpace (test_env 200 [])
          (Server (api test_state) @ ''/api/2.4/serverinfo'')) = None \<and>
   map URL (sent test_state (snd (ServerInfo (test_env 200 []) test_state))) =
     [''https://bi.example.com/api/2.4/serverinfo''] \<and>
   map URL (sent test_state (snd (Signin (test_env 200 []) ''alice'' ''secret'' ''Default'' [] test_state))) =
     [''https://bi.example.com/api/2.0/auth/signin''] \<and>
   map URL (sent test_state (snd (Signout (test_env 200 []) test_state))) =
     [''https://bi.example.com/api/2.0/auth/signout''] \<and>
   map URL (sent test_state (snd (QuerySites (test_env 200 []) test_state))) =
     [''https://bi.example.com/api/2.0/sites/''] \<and>
   map URL (sent test_state (snd (QuerySite (test_env 200 []) ''siteX'' True test_state))) =
     [''https://bi.example.com/api/2.0/sites/siteX?includeStorage=true''] \<and>
   map URL (sent test_state (snd (QuerySiteByName (test_env 200 []) ''Main'' True test_state))) =
     [''https://bi.example.com/api/2.0/sites/Main?key=name&includeStorage=true''] \<and>
   map URL (sent test_state (snd (QuerySiteByContentURL (test_env 200 []) ''Default'' True test_state))) =
     [''https://bi.example.com/api/2.0/sites/Default?key=contentURL&includeStorage=true''] \<and>
   map URL (sent test_state (snd (QueryUserOnSite (test_env 200 []) ''siteX'' ''u1'' test_state))) =
     [''https://bi.example.com/api/2.0/sites/siteX/users/u1''] \<and>
   map URL (sent test_state (snd (QueryProjects (test_env 200 []) ''siteX'' test_state))) =
     [''https://bi.example.com/api/2.0/sites/siteX/projects''] \<and>
   map URL (sent test_state (snd (QueryViews (test_env 200 []) ''siteX'' test_state))) =
     [''https://bi.example.com/api/2.0/sites/siteX/views''] \<and>
   map URL (sent test_state (snd (QueryWorkbookViews (test_env 200 []) ''siteX'' ''w1'' [] test_state))) =
     [''https://bi.example.com/api/2.0/sites/siteX/workbooks/w1/views''] \<and>
   map URL (sent test_state (snd (QueryViewData (test_env 200 []) ''siteX'' ''v1'' test_state))) =
     [''https://bi.example.com/api/2.0/sites/siteX/views/v1/data''] \<and>
   map URL (sent test_state (snd (QueryWorkbooks (test_env 200 []) ''siteX'' [] test_state))) =
     [''https://bi.example.com/api/2.0/sites/siteX/workbooks''] \<and>
   map URL (sent test_state (snd (GetProjectByName (test_env 200 []) ''siteX'' ''Main'' test_state))) =
     [''https://bi.example.com/api/2.0/sites/siteX/projects''] \<and>
   map URL (sent test_state (snd (GetProjectByID (test_env 200 []) ''siteX'' ''p1'' test_state))) =
     [''https://bi.example.com/api/2.0/sites/siteX/projects''] \<and>
   map URL (sent test_state (snd (QueryDatasources (test_env 200 []) ''siteX'' test_state))) =
     [''https://bi.example.com/api/2.0/sites/siteX/datasources''] \<and>
   map URL (sent test_state (snd (GetSiteID (test_env 200 []) ''Main'' test_state))) =
     [''https://bi.example.com/api/2.0/sites/Main?key=name''] \<and>
   map URL (sent test_state (snd (CreateProject (test_env 200 []) ''siteX'' Project_zero test_state))) =
     [''https://bi.example.com/api/2.0/sites/siteX/projects''] \<and>
   map URL (sent test_state (snd (PublishTDS (test_env 200 []) ''siteX'' sales ''<rows/>'' False test_state))) =
     [''https://bi.example.com/api/2.0/sites/siteX/datasources?datasourceType=tds&overwrite=false''] \<and>
   map URL (sent test_state (snd (DeleteDatasource (test_env 200 []) ''siteX'' ''d1'' test_state))) =
     [''https://bi.example.com/api/2.0/sites/siteX/datasources/d1''] \<and>
   map URL (sent test_state (snd (DeleteProject (test_env 200 []) ''siteX'' ''p1'' test_state))) =
     [''https://bi.example.com/api/2.0/sites/siteX/projects/p1''] \<and>
   map URL (sent test_state (snd (DeleteSite (test_env 200 []) ''siteX'' test_state))) =
     [''https://bi.example.com/api/2.0/sites/siteX''] \<and>
   map URL (sent test_state (snd (DeleteSiteByName (test_env 200 []) ''Main'' test_state))) =
     [''https://bi.example.com/api/2.0/sites/Main?key=name''] \<and>
   map URL (sent test_state (snd (DeleteSiteByContentURL (test_env 200 []) ''Default'' test_state))) =
     [''https://bi.example.com/api/2.0/sites/Default?key=contentUrl'']"
  using ServerInfo_literal_version [where e = "test_env 200 []" and s = test_state
      and username = "''alice''" and password = "''secret''" and contentURL = "''Default''"
      and userIDToImpersonate = "[]" and siteID = "''siteX''" and includeStorage = True
      and name = "''Main''" and userID = "''u1''" and workbookID = "''w1''" and vals = "[]"
      and viewID = "''v1''" and ID = "''p1''" and siteName = "''Main''"
      and project = Project_zero and tdsMetadata = sales and fullTds = "''<rows/>''"
      and overwrite = False and datasourceID = "''d1''" and projectID = "''p1''"]
  by (simp add: sends_to_def targets_def test_defs fmt_bool_def)

end
